theory Spec2Isabelle
  imports Complex_Main "HOL-Library.AList"
begin

section \<open>Data model\<close>

text \<open>
  The tables of \<^verbatim>\<open>app/api/models\<close>. A Python \<^verbatim>\<open>Decimal\<close> is modelled as a rational
  number: the services add, subtract, multiply, divide and compare decimals, and every such
  result is the exact value (the 28-digit context of \<^verbatim>\<open>decimal\<close> is not part of the
  model). The columns are \<^verbatim>\<open>Numeric(18, 2)\<close> for a balance and \<^verbatim>\<open>Numeric(18, 8)\<close> for
  quantities, amounts and prices: the store holds a value at the scale of its column. How it
  coerces a value to a scale is the store's own, so it is a parameter of every operation that
  writes a computed value: \<open>numeric sc x\<close> is what the store holds after \<open>x\<close> is written to
  a column of scale \<open>sc\<close>. The rows of a \<open>store\<close> are the rows as the store holds them; a
  value that already comes from a column of the same scale, and the constant
  \<^verbatim>\<open>Decimal("100000.00")\<close>, are held as they are. Values are taken to fit the precision
  of their columns. A \<^verbatim>\<open>datetime\<close> is an integer instant. Python \<^verbatim>\<open>float\<close> values are
  kept abstract: a type variable, with the conversions \<^verbatim>\<open>float(d)\<close> and
  \<^verbatim>\<open>Decimal(str(x))\<close> passed as parameters.
  The surrogate keys of the portfolio, transaction and price-history rows are generated by
  the store and read by none of the operations below; those rows are modelled without them.
\<close>

type_synonym decimal = rat

type_synonym datetime = int

record user =
  u_id :: int
  username :: string
  email :: string
  hashed_password :: string
  balance :: decimal
  role :: string
  u_is_active :: bool

record asset =
  a_id :: int
  ticker :: string
  a_name :: string
  binance_symbol :: string
  current_price :: decimal
  is_active :: bool

record portfolio =
  p_user_id :: int
  p_asset_id :: int
  quantity :: decimal

record transaction =
  t_user_id :: int
  t_asset_id :: int
  amount :: decimal
  price_at_transaction :: decimal
  t_type :: string
  timestamp :: datetime

record price_history_row =
  h_asset_id :: int
  price :: decimal
  h_timestamp :: datetime

record trade_request =
  asset_ticker :: string
  req_amount :: decimal

text \<open>The relational store: one list of rows per table, in insertion order.\<close>

record store =
  users :: "user list"
  assets :: "asset list"
  portfolios :: "portfolio list"
  transactions :: "transaction list"
  price_history :: "price_history_row list"

text \<open>
  An \<^verbatim>\<open>AsyncSession\<close>: the rows as committed, the rows as the session sees them
  (with its own uncommitted writes), and the number of \<^verbatim>\<open>commit()\<close> calls made on it.
\<close>

record session =
  committed :: store
  pending :: store
  commits :: nat

definition open_session :: "store \<Rightarrow> session" where
  "open_session s = \<lparr>committed = s, pending = s, commits = 0\<rparr>"

definition commit :: "session \<Rightarrow> session" where
  "commit ss = ss\<lparr>committed := pending ss, commits := Suc (commits ss)\<rparr>"

text \<open>
  The exceptions the modelled code can raise. The services raise
  \<^verbatim>\<open>HTTPException(status_code, detail)\<close>; each constructor stands for one raise site.
  \<^verbatim>\<open>MultipleResultsFound\<close> is what \<^verbatim>\<open>scalar_one_or_none()\<close> raises on more than
  one row, \<^verbatim>\<open>AttributeError\<close> what \<^verbatim>\<open>tx.asset.ticker\<close> raises when the asset is missing.
\<close>

datatype error =
    UserNotFound
  | AssetNotFound
  | InsufficientFunds
  | InsufficientHolding
  | InvalidTradeType
  | MultipleResultsFound
  | AttributeError

fun status_code :: "error \<Rightarrow> nat" where
  "status_code UserNotFound = 404"
| "status_code AssetNotFound = 404"
| "status_code InsufficientFunds = 400"
| "status_code InsufficientHolding = 400"
| "status_code InvalidTradeType = 400"
| "status_code MultipleResultsFound = 500"
| "status_code AttributeError = 500"

section \<open>Repositories\<close>

fun scalar_one_or_none :: "'a list \<Rightarrow> error + 'a option" where
  "scalar_one_or_none [] = Inr None"
| "scalar_one_or_none [x] = Inr (Some x)"
| "scalar_one_or_none (x # y # zs) = Inl MultipleResultsFound"

text \<open>\<^verbatim>\<open>UserRepository.get_by_id\<close>: a primary-key lookup, \<^verbatim>\<open>db.get(User, user_id)\<close>.\<close>

definition user_get_by_id :: "store \<Rightarrow> int \<Rightarrow> user option" where
  "user_get_by_id s user_id = find (\<lambda>u. u_id u = user_id) (users s)"

text \<open>
  A write to an attribute of a loaded object changes the row that was loaded: the first row
  the lookup matches.
\<close>

fun update_first :: "('a \<Rightarrow> bool) \<Rightarrow> ('a \<Rightarrow> 'a) \<Rightarrow> 'a list \<Rightarrow> 'a list" where
  "update_first P f [] = []"
| "update_first P f (x # xs) = (if P x then f x # xs else x # update_first P f xs)"

text \<open>
  \<^verbatim>\<open>UserRepository.update_balance\<close>: \<^verbatim>\<open>user.balance += amount\<close> on the loaded row. The
  sum is exact in memory and nothing reads it again before the flush, which stores it in the
  column \<^verbatim>\<open>Numeric(18, 2)\<close>: the row holds the sum coerced to scale 2.
\<close>

definition update_balance :: "(nat \<Rightarrow> decimal \<Rightarrow> decimal) \<Rightarrow> store \<Rightarrow> int \<Rightarrow> decimal \<Rightarrow> store" where
  "update_balance numeric s user_id delta =
     s\<lparr>users := update_first (\<lambda>u. u_id u = user_id)
                   (\<lambda>u. u\<lparr>balance := numeric 2 (balance u + delta)\<rparr>) (users s)\<rparr>"

text \<open>
  The assignment \<^verbatim>\<open>user.balance = self.INITIAL_BALANCE\<close> on the loaded row; the constant
  has two decimal places and is held as it is.
\<close>

definition set_balance :: "store \<Rightarrow> int \<Rightarrow> decimal \<Rightarrow> store" where
  "set_balance s user_id b =
     s\<lparr>users := update_first (\<lambda>u. u_id u = user_id) (\<lambda>u. u\<lparr>balance := b\<rparr>) (users s)\<rparr>"

definition asset_get_by_id :: "store \<Rightarrow> int \<Rightarrow> asset option" where
  "asset_get_by_id s asset_id = find (\<lambda>a. a_id a = asset_id) (assets s)"

definition get_by_ticker :: "store \<Rightarrow> string \<Rightarrow> error + asset option" where
  "get_by_ticker s t = scalar_one_or_none (filter (\<lambda>a. ticker a = t) (assets s))"

definition get_by_user_and_asset :: "store \<Rightarrow> int \<Rightarrow> int \<Rightarrow> error + portfolio option" where
  "get_by_user_and_asset s user_id asset_id =
     scalar_one_or_none
       (filter (\<lambda>p. p_user_id p = user_id \<and> p_asset_id p = asset_id) (portfolios s))"

text \<open>
  \<^verbatim>\<open>PortfolioRepository.create\<close>: the new row holds the quantity in the column
  \<^verbatim>\<open>Numeric(18, 8)\<close>, coerced to scale 8.
\<close>

definition portfolio_create ::
  "(nat \<Rightarrow> decimal \<Rightarrow> decimal) \<Rightarrow> store \<Rightarrow> int \<Rightarrow> int \<Rightarrow> decimal \<Rightarrow> store" where
  "portfolio_create numeric s user_id asset_id q =
     s\<lparr>portfolios := portfolios s @
         [\<lparr>p_user_id = user_id, p_asset_id = asset_id, quantity = numeric 8 q\<rparr>]\<rparr>"

text \<open>
  \<^verbatim>\<open>PortfolioRepository.update_quantity\<close>: \<^verbatim>\<open>portfolio.quantity += quantity_delta\<close> on the
  row that \<^verbatim>\<open>get_by_user_and_asset\<close> returned, which is the one row of that user and asset;
  the row holds the sum coerced to scale 8.
\<close>

definition update_quantity ::
  "(nat \<Rightarrow> decimal \<Rightarrow> decimal) \<Rightarrow> store \<Rightarrow> int \<Rightarrow> int \<Rightarrow> decimal \<Rightarrow> store" where
  "update_quantity numeric s user_id asset_id delta =
     s\<lparr>portfolios :=
         map (\<lambda>p. if p_user_id p = user_id \<and> p_asset_id p = asset_id
                   then p\<lparr>quantity := numeric 8 (quantity p + delta)\<rparr> else p) (portfolios s)\<rparr>"

text \<open>
  \<^verbatim>\<open>TransactionRepository.create\<close>: the new ledger row, as the store holds it and as
  \<^verbatim>\<open>db.refresh(transaction)\<close> reads it back. The amount is the amount of the request coerced
  to scale 8; the price is the asset's current price, which comes from a column of the same
  scale; the timestamp is the store's clock.
\<close>

definition transaction_create ::
  "(nat \<Rightarrow> decimal \<Rightarrow> decimal) \<Rightarrow> store \<Rightarrow> int \<Rightarrow> int \<Rightarrow> decimal \<Rightarrow> decimal \<Rightarrow> string
     \<Rightarrow> datetime \<Rightarrow> transaction \<times> store" where
  "transaction_create numeric s user_id asset_id amt p transaction_type now =
     (let tx = \<lparr>t_user_id = user_id, t_asset_id = asset_id, amount = numeric 8 amt,
                price_at_transaction = p, t_type = transaction_type, timestamp = now\<rparr>
      in (tx, s\<lparr>transactions := transactions s @ [tx]\<rparr>))"

text \<open>The two bulk deletes return \<^verbatim>\<open>result.rowcount\<close>, the number of rows deleted.\<close>

definition delete_user_portfolio :: "store \<Rightarrow> int \<Rightarrow> nat \<times> store" where
  "delete_user_portfolio s user_id =
     (length (filter (\<lambda>p. p_user_id p = user_id) (portfolios s)),
      s\<lparr>portfolios := filter (\<lambda>p. p_user_id p \<noteq> user_id) (portfolios s)\<rparr>)"

definition delete_user_transactions :: "store \<Rightarrow> int \<Rightarrow> nat \<times> store" where
  "delete_user_transactions s user_id =
     (length (filter (\<lambda>t. t_user_id t = user_id) (transactions s)),
      s\<lparr>transactions := filter (\<lambda>t. t_user_id t \<noteq> user_id) (transactions s)\<rparr>)"

section \<open>TradeService\<close>

definition INITIAL_BALANCE :: decimal where
  "INITIAL_BALANCE = 100000"

text \<open>
  \<^verbatim>\<open>_get_valid_resources\<close>: both rows are fetched first, then checked, user first.
\<close>

definition get_valid_resources :: "store \<Rightarrow> int \<Rightarrow> string \<Rightarrow> error + (user \<times> asset)" where
  "get_valid_resources s user_id t =
     (let user = user_get_by_id s user_id in
      case get_by_ticker s t of
        Inl e \<Rightarrow> Inl e
      | Inr asset \<Rightarrow>
          (case user of
             None \<Rightarrow> Inl UserNotFound
           | Some u \<Rightarrow> (case asset of None \<Rightarrow> Inl AssetNotFound | Some a \<Rightarrow> Inr (u, a))))"

text \<open>
  \<^verbatim>\<open>_process_buy\<close> and \<^verbatim>\<open>_process_sell\<close> act on the session's rows; each returns the
  exception it raised, if any, together with the rows as they are at that point.
\<close>

definition process_buy ::
  "(nat \<Rightarrow> decimal \<Rightarrow> decimal) \<Rightarrow> store \<Rightarrow> user \<Rightarrow> asset \<Rightarrow> portfolio option \<Rightarrow> decimal
     \<Rightarrow> decimal \<Rightarrow> error option \<times> store" where
  "process_buy numeric s user asset portfolio_item amt cost =
     (if balance user < cost then (Some InsufficientFunds, s)
      else
        let s1 = update_balance numeric s (u_id user) (- cost) in
        case portfolio_item of
          Some p \<Rightarrow> (None, update_quantity numeric s1 (p_user_id p) (p_asset_id p) amt)
        | None \<Rightarrow> (None, portfolio_create numeric s1 (u_id user) (a_id asset) amt))"

definition process_sell ::
  "(nat \<Rightarrow> decimal \<Rightarrow> decimal) \<Rightarrow> store \<Rightarrow> user \<Rightarrow> asset \<Rightarrow> portfolio option \<Rightarrow> decimal
     \<Rightarrow> decimal \<Rightarrow> error option \<times> store" where
  "process_sell numeric s user asset portfolio_item amt income =
     (case portfolio_item of
        None \<Rightarrow> (Some InsufficientHolding, s)
      | Some p \<Rightarrow>
          if quantity p < amt then (Some InsufficientHolding, s)
          else
            let s1 = update_balance numeric s (u_id user) income
            in (None, update_quantity numeric s1 (p_user_id p) (p_asset_id p) (- amt)))"

text \<open>
  \<^verbatim>\<open>execute_trade\<close>. \<^verbatim>\<open>now\<close> is the store's clock when the ledger row is inserted
  (\<^verbatim>\<open>server_default=func.now()\<close>). The result is the exception or the created transaction
  with the ticker attached to it, and the session as the call leaves it.
\<close>

definition execute_trade ::
  "(nat \<Rightarrow> decimal \<Rightarrow> decimal) \<Rightarrow> session \<Rightarrow> int \<Rightarrow> trade_request \<Rightarrow> string \<Rightarrow> datetime
     \<Rightarrow> (error + (transaction \<times> string)) \<times> session" where
  "execute_trade numeric ss user_id trade_data trade_type now =
     (case get_valid_resources (pending ss) user_id (asset_ticker trade_data) of
        Inl e \<Rightarrow> (Inl e, ss)
      | Inr (user, asset) \<Rightarrow>
          (case get_by_user_and_asset (pending ss) user_id (a_id asset) of
             Inl e \<Rightarrow> (Inl e, ss)
           | Inr portfolio_item \<Rightarrow>
               let total_value = current_price asset * req_amount trade_data in
               (case (if trade_type = ''BUY''
                        then process_buy numeric (pending ss) user asset portfolio_item
                               (req_amount trade_data) total_value
                      else if trade_type = ''SELL''
                        then process_sell numeric (pending ss) user asset portfolio_item
                               (req_amount trade_data) total_value
                      else (Some InvalidTradeType, pending ss)) of
                  (Some e, s1) \<Rightarrow> (Inl e, ss\<lparr>pending := s1\<rparr>)
                | (None, s1) \<Rightarrow>
                    (case transaction_create numeric s1 (u_id user) (a_id asset)
                            (req_amount trade_data) (current_price asset) trade_type now of
                       (tx, s2) \<Rightarrow> (Inr (tx, ticker asset), commit (ss\<lparr>pending := s2\<rparr>))))))"

text \<open>The dictionary \<^verbatim>\<open>reset_account\<close> returns (without its constant message fields).\<close>

record 'f reset_result =
  deleted_portfolio_items :: nat
  deleted_transactions :: nat
  new_balance :: 'f

definition reset_account ::
  "(decimal \<Rightarrow> 'f) \<Rightarrow> session \<Rightarrow> int \<Rightarrow> (error + 'f reset_result) \<times> session" where
  "reset_account to_float ss user_id =
     (case user_get_by_id (pending ss) user_id of
        None \<Rightarrow> (Inl UserNotFound, ss)
      | Some user \<Rightarrow>
          (case delete_user_portfolio (pending ss) user_id of
             (deleted_portfolio, s1) \<Rightarrow>
               (case delete_user_transactions s1 user_id of
                  (deleted_tx, s2) \<Rightarrow>
                    let s3 = set_balance s2 (u_id user) INITIAL_BALANCE
                    in (Inr \<lparr>deleted_portfolio_items = deleted_portfolio,
                              deleted_transactions = deleted_tx,
                              new_balance = to_float INITIAL_BALANCE\<rparr>,
                        commit (ss\<lparr>pending := s3\<rparr>)))))"

subsection \<open>Wallet\<close>

text \<open>
  \<^verbatim>\<open>UserRepository.get_by_id_with_portfolio\<close> selects the user by id; the portfolio rows
  and their assets come with it through the relationships, read below from the same rows.
\<close>

definition get_by_id_with_portfolio :: "store \<Rightarrow> int \<Rightarrow> error + user option" where
  "get_by_id_with_portfolio s user_id =
     scalar_one_or_none (filter (\<lambda>u. u_id u = user_id) (users s))"

text \<open>\<^verbatim>\<open>user.portfolio\<close>, the relationship from a user to its portfolio rows.\<close>

definition user_portfolio :: "store \<Rightarrow> user \<Rightarrow> portfolio list" where
  "user_portfolio s u = filter (\<lambda>p. p_user_id p = u_id u) (portfolios s)"

text \<open>
  \<^verbatim>\<open>TransactionRepository.get_by_user\<close>: the user's ledger rows ordered by timestamp
  (rows of equal timestamp are taken in insertion order).
\<close>

definition get_by_user :: "store \<Rightarrow> int \<Rightarrow> transaction list" where
  "get_by_user s user_id =
     sort_key timestamp (filter (\<lambda>t. t_user_id t = user_id) (transactions s))"

text \<open>One entry of the dictionary \<^verbatim>\<open>asset_stats\<close>.\<close>

record stats =
  total_cost :: decimal
  st_quantity :: decimal
  avg_price :: decimal

definition zero_stats :: stats where
  "zero_stats = \<lparr>total_cost = 0, st_quantity = 0, avg_price = 0\<rparr>"

text \<open>The body of the replay loop of \<^verbatim>\<open>get_wallet\<close>, on the entry of the ticker.\<close>

definition replay_tx :: "stats \<Rightarrow> transaction \<Rightarrow> stats" where
  "replay_tx st tx =
     (if t_type tx = ''BUY'' then
        let st1 = st\<lparr>st_quantity := st_quantity st + amount tx\<rparr>;
            st2 = st1\<lparr>total_cost := total_cost st1 + amount tx * price_at_transaction tx\<rparr>
        in if st_quantity st2 > 0
           then st2\<lparr>avg_price := total_cost st2 / st_quantity st2\<rparr> else st2
      else if t_type tx = ''SELL'' then
        let st1 = st\<lparr>st_quantity := st_quantity st - amount tx\<rparr>;
            st2 = st1\<lparr>total_cost := total_cost st1 - amount tx * avg_price st1\<rparr>
        in if st_quantity st2 \<le> 0
           then st2\<lparr>st_quantity := 0, total_cost := 0, avg_price := 0\<rparr> else st2
      else st)"

text \<open>
  The replay loop: \<^verbatim>\<open>tx.asset\<close> is the asset row of the transaction's \<^verbatim>\<open>asset_id\<close>;
  a ticker seen for the first time starts from zeros.
\<close>

fun replay_ledger ::
  "store \<Rightarrow> transaction list \<Rightarrow> (string \<rightharpoonup> stats) \<Rightarrow> error + (string \<rightharpoonup> stats)" where
  "replay_ledger s [] asset_stats = Inr asset_stats"
| "replay_ledger s (tx # txs) asset_stats =
     (case asset_get_by_id s (t_asset_id tx) of
        None \<Rightarrow> Inl AttributeError
      | Some a \<Rightarrow>
          let st = (case asset_stats (ticker a) of None \<Rightarrow> zero_stats | Some st \<Rightarrow> st)
          in replay_ledger s txs (asset_stats(ticker a \<mapsto> replay_tx st tx)))"

text \<open>One element of \<^verbatim>\<open>assets_list\<close> and the dictionary \<^verbatim>\<open>get_wallet\<close> returns.\<close>

record 'f wallet_asset =
  wa_ticker :: string
  wa_name :: string
  wa_amount :: 'f
  wa_current_price :: 'f
  wa_value :: 'f
  average_buy_price :: 'f
  wa_is_active :: bool

record 'f wallet =
  w_username :: string
  w_balance :: 'f
  w_assets :: "'f wallet_asset list"
  total_value :: 'f

text \<open>The body of the loop over \<^verbatim>\<open>user.portfolio\<close>; a row without asset is skipped.\<close>

definition wallet_row ::
  "(decimal \<Rightarrow> 'f) \<Rightarrow> store \<Rightarrow> (string \<rightharpoonup> stats) \<Rightarrow> 'f wallet_asset list \<times> decimal
     \<Rightarrow> portfolio \<Rightarrow> 'f wallet_asset list \<times> decimal" where
  "wallet_row to_float s asset_stats acc p =
     (case asset_get_by_id s (p_asset_id p) of
        None \<Rightarrow> acc
      | Some a \<Rightarrow>
          let v = quantity p * current_price a;
              avg = (case asset_stats (ticker a) of None \<Rightarrow> 0 | Some st \<Rightarrow> avg_price st)
          in (fst acc @ [\<lparr>wa_ticker = ticker a, wa_name = a_name a,
                           wa_amount = to_float (quantity p),
                           wa_current_price = to_float (current_price a),
                           wa_value = to_float v, average_buy_price = to_float avg,
                           wa_is_active = is_active a\<rparr>],
              snd acc + v))"

definition get_wallet :: "(decimal \<Rightarrow> 'f) \<Rightarrow> store \<Rightarrow> int \<Rightarrow> error + 'f wallet" where
  "get_wallet to_float s user_id =
     (case get_by_id_with_portfolio s user_id of
        Inl e \<Rightarrow> Inl e
      | Inr None \<Rightarrow> Inl UserNotFound
      | Inr (Some user) \<Rightarrow>
          (case replay_ledger s (sort_key timestamp (get_by_user s user_id)) Map.empty of
             Inl e \<Rightarrow> Inl e
           | Inr asset_stats \<Rightarrow>
               (case foldl (wallet_row to_float s asset_stats) ([], 0) (user_portfolio s user) of
                  (assets_list, total_assets_value) \<Rightarrow>
                    Inr \<lparr>w_username = username user,
                         w_balance = to_float (balance user),
                         w_assets = assets_list,
                         total_value = to_float (balance user + total_assets_value)\<rparr>)))"

section \<open>MarketService\<close>

text \<open>
  Python strings are modelled as ASCII strings. \<^verbatim>\<open>str.isupper\<close>: there is a cased
  character and no lowercase one; \<^verbatim>\<open>str.isalnum\<close>: non-empty, letters and digits only.
\<close>

definition is_upper_char :: "char \<Rightarrow> bool" where
  "is_upper_char c = (65 \<le> (of_char c :: nat) \<and> (of_char c :: nat) \<le> 90)"

definition is_lower_char :: "char \<Rightarrow> bool" where
  "is_lower_char c = (97 \<le> (of_char c :: nat) \<and> (of_char c :: nat) \<le> 122)"

definition is_digit_char :: "char \<Rightarrow> bool" where
  "is_digit_char c = (48 \<le> (of_char c :: nat) \<and> (of_char c :: nat) \<le> 57)"

definition isupper :: "string \<Rightarrow> bool" where
  "isupper s = (list_ex is_upper_char s \<and> list_all (\<lambda>c. \<not> is_lower_char c) s)"

definition isalnum :: "string \<Rightarrow> bool" where
  "isalnum s =
     (s \<noteq> [] \<and> list_all (\<lambda>c. is_upper_char c \<or> is_lower_char c \<or> is_digit_char c) s)"

text \<open>
  A Python dictionary built by a comprehension: keys in order of first insertion, a later
  value for a key replacing the earlier one.
\<close>

definition dict_of :: "('k \<times> 'v) list \<Rightarrow> ('k \<times> 'v) list" where
  "dict_of kvs = foldl (\<lambda>d kv. AList.update (fst kv) (snd kv) d) [] kvs"

definition get_all_active :: "store \<Rightarrow> asset list" where
  "get_all_active s = filter is_active (assets s)"

definition get_ticker_to_binance_map :: "store \<Rightarrow> (string \<times> string) list" where
  "get_ticker_to_binance_map s = dict_of (map (\<lambda>a. (ticker a, binance_symbol a)) (get_all_active s))"

definition get_ticker_to_id_map :: "store \<Rightarrow> (string \<times> int) list" where
  "get_ticker_to_id_map s = dict_of (map (\<lambda>a. (ticker a, a_id a)) (assets s))"

definition update_price :: "store \<Rightarrow> int \<Rightarrow> decimal \<Rightarrow> store" where
  "update_price s asset_id new_price =
     s\<lparr>assets := map (\<lambda>a. if a_id a = asset_id then a\<lparr>current_price := new_price\<rparr> else a) (assets s)\<rparr>"

definition price_history_create :: "store \<Rightarrow> int \<Rightarrow> decimal \<Rightarrow> datetime \<Rightarrow> store" where
  "price_history_create s asset_id p now =
     s\<lparr>price_history := price_history s @ [\<lparr>h_asset_id = asset_id, price = p, h_timestamp = now\<rparr>]\<rparr>"

text \<open>The dictionary \<^verbatim>\<open>{"ticker": ..., "price": ...}\<close> and the broadcast message.\<close>

record 'f ws_update =
  upd_ticker :: string
  upd_price :: 'f

record 'f message =
  msg_type :: string
  msg_data :: "'f ws_update list"

text \<open>
  What a sync cycle does to its collaborators, in the order in which it does it: a call of
  \<^verbatim>\<open>BinanceClient.get_prices\<close> with its argument, a \<^verbatim>\<open>commit()\<close> of the session, a call
  of \<^verbatim>\<open>ConnectionManager.broadcast\<close> with its message.
\<close>

datatype 'f event = FeedCall "string list" | DbCommit | WsBroadcast "'f message"

text \<open>
  \<^verbatim>\<open>_fetch_live_prices\<close>. The feed is \<^verbatim>\<open>BinanceClient.get_prices\<close> as it answers in this
  cycle: \<^verbatim>\<open>None\<close> when it raises, the dictionary of prices otherwise. The second component
  lists the calls made to the feed.
\<close>

definition fetch_live_prices ::
  "(string list \<Rightarrow> (string \<times> 'f) list option) \<Rightarrow> (string \<times> string) list
     \<Rightarrow> (string \<times> 'f) list \<times> 'f event list" where
  "fetch_live_prices feed ticker_map =
     (if ticker_map = [] then ([], [])
      else
        let binance_symbols = filter (\<lambda>s. s \<noteq> [] \<and> isupper s \<and> isalnum s) (map snd ticker_map)
        in if binance_symbols = [] then ([], [])
           else (case feed binance_symbols of
                   Some prices \<Rightarrow> (prices, [FeedCall binance_symbols])
                 | None \<Rightarrow> ([], [FeedCall binance_symbols])))"

text \<open>
  \<^verbatim>\<open>_persist_asset_update\<close>; \<^verbatim>\<open>to_decimal\<close> is \<^verbatim>\<open>Decimal(str(price))\<close>, and
  \<^verbatim>\<open>now\<close> the store's clock for the inserted history rows.
\<close>

definition persist_asset_update ::
  "('f \<Rightarrow> decimal) \<Rightarrow> datetime \<Rightarrow> store \<Rightarrow> int \<Rightarrow> string \<Rightarrow> 'f \<Rightarrow> 'f ws_update \<times> store" where
  "persist_asset_update to_decimal now s asset_id t p =
     (let decimal_price = to_decimal p;
          s1 = update_price s asset_id decimal_price;
          s2 = price_history_create s1 asset_id decimal_price now
      in (\<lparr>upd_ticker = t, upd_price = p\<rparr>, s2))"

text \<open>The loop of \<^verbatim>\<open>_update_prices\<close> over \<^verbatim>\<open>ticker_map.items()\<close>.\<close>

fun update_loop ::
  "('f \<Rightarrow> decimal) \<Rightarrow> datetime \<Rightarrow> (string \<times> 'f) list \<Rightarrow> (string \<times> int) list
     \<Rightarrow> (string \<times> string) list \<Rightarrow> store \<Rightarrow> 'f ws_update list \<Rightarrow> store \<times> 'f ws_update list" where
  "update_loop to_decimal now binance_prices assets_map [] s updates_for_ws = (s, updates_for_ws)"
| "update_loop to_decimal now binance_prices assets_map ((my_ticker, symbol) # items) s
     updates_for_ws =
     (case map_of binance_prices symbol of
        None \<Rightarrow> update_loop to_decimal now binance_prices assets_map items s updates_for_ws
      | Some p \<Rightarrow>
          (case map_of assets_map my_ticker of
             None \<Rightarrow> update_loop to_decimal now binance_prices assets_map items s updates_for_ws
           | Some asset_id \<Rightarrow>
               (case persist_asset_update to_decimal now s asset_id my_ticker p of
                  (update_data, s1) \<Rightarrow>
                    update_loop to_decimal now binance_prices assets_map items s1
                      (updates_for_ws @ [update_data]))))"

definition broadcast_updates :: "'f ws_update list \<Rightarrow> 'f message" where
  "broadcast_updates updates = \<lparr>msg_type = ''market_update'', msg_data = updates\<rparr>"

text \<open>
  \<^verbatim>\<open>_update_prices\<close>. One cycle leaves behind the session it used and the events above;
  the commit is made inside the \<^verbatim>\<open>async with\<close> block of the session, the broadcast
  after it.
\<close>

record 'f cycle =
  cycle_session :: session
  events :: "'f event list"

definition update_prices ::
  "('f \<Rightarrow> decimal) \<Rightarrow> (string list \<Rightarrow> (string \<times> 'f) list option) \<Rightarrow> datetime \<Rightarrow> store
     \<Rightarrow> 'f cycle" where
  "update_prices to_decimal feed now s =
     (let db = open_session s;
          ticker_map = get_ticker_to_binance_map (pending db)
      in case fetch_live_prices feed ticker_map of
           (binance_prices, calls) \<Rightarrow>
             if binance_prices = [] then
               \<lparr>cycle_session = db, events = calls\<rparr>
             else
               let assets_map = get_ticker_to_id_map (pending db) in
               (case update_loop to_decimal now binance_prices assets_map ticker_map (pending db) [] of
                  (s1, updates_for_ws) \<Rightarrow>
                    \<lparr>cycle_session = commit (db\<lparr>pending := s1\<rparr>),
                     events = calls @ [DbCommit] @
                       (if updates_for_ws \<noteq> []
                        then [WsBroadcast (broadcast_updates updates_for_ws)] else [])\<rparr>))"

section \<open>ConnectionManager\<close>

text \<open>
  The manager's state is the list \<^verbatim>\<open>active_connections\<close>. \<^verbatim>\<open>send_fails\<close> tells for
  which connections \<^verbatim>\<open>send_json\<close> raises during the broadcast. A broadcast leaves the list,
  the connections it tried to send to and the connections that received the message.
\<close>

definition disconnect :: "'ws list \<Rightarrow> 'ws \<Rightarrow> 'ws list" where
  "disconnect active_connections websocket =
     (if websocket \<in> set active_connections then remove1 websocket active_connections
      else active_connections)"

record 'ws broadcast_result =
  active_after :: "'ws list"
  attempted :: "'ws list"
  delivered :: "'ws list"

fun broadcast_loop :: "('ws \<Rightarrow> bool) \<Rightarrow> 'ws list \<Rightarrow> 'ws broadcast_result \<Rightarrow> 'ws broadcast_result" where
  "broadcast_loop send_fails [] r = r"
| "broadcast_loop send_fails (connection # rest) r =
     (if send_fails connection
      then broadcast_loop send_fails rest
             (r\<lparr>active_after := disconnect (active_after r) connection,
                attempted := attempted r @ [connection]\<rparr>)
      else broadcast_loop send_fails rest
             (r\<lparr>attempted := attempted r @ [connection],
                delivered := delivered r @ [connection]\<rparr>))"

definition broadcast :: "('ws \<Rightarrow> bool) \<Rightarrow> 'ws list \<Rightarrow> 'ws broadcast_result" where
  "broadcast send_fails active_connections =
     broadcast_loop send_fails active_connections
       \<lparr>active_after = active_connections, attempted = [], delivered = []\<rparr>"

section \<open>Stated properties\<close>

text \<open>
  The sign invariant of the data model: every balance and every holding quantity is
  non-negative.
\<close>

definition nonneg_invariant :: "store \<Rightarrow> bool" where
  "nonneg_invariant s =
     (list_all (\<lambda>u. 0 \<le> balance u) (users s) \<and> list_all (\<lambda>p. 0 \<le> quantity p) (portfolios s))"

text \<open>
  The ticker a ledger row is filed under in \<^verbatim>\<open>asset_stats\<close>: \<^verbatim>\<open>tx.asset.ticker\<close>.
\<close>

definition ticker_of :: "store \<Rightarrow> transaction \<Rightarrow> string option" where
  "ticker_of s tx = map_option ticker (asset_get_by_id s (t_asset_id tx))"

text \<open>
  The average-cost rule in the words of the specification, as amended for C5: a BUY adds
  \<open>amount\<close> to the quantity and \<open>amount * price\<close> to the total cost and sets the average
  to total cost / quantity; a SELL that leaves a positive quantity subtracts \<open>amount\<close> from
  the quantity and \<open>amount * average\<close> from the total cost and keeps the average; a SELL
  that brings the quantity to zero or below resets quantity, total cost and average to 0.
\<close>

definition average_cost_step :: "stats \<Rightarrow> transaction \<Rightarrow> stats" where
  "average_cost_step st tx =
     (if t_type tx = ''BUY'' then
        \<lparr>total_cost = total_cost st + amount tx * price_at_transaction tx,
         st_quantity = st_quantity st + amount tx,
         avg_price = (total_cost st + amount tx * price_at_transaction tx)
                       / (st_quantity st + amount tx)\<rparr>
      else if t_type tx = ''SELL'' then
        (if st_quantity st - amount tx \<le> 0
         then \<lparr>total_cost = 0, st_quantity = 0, avg_price = 0\<rparr>
         else \<lparr>total_cost = total_cost st - amount tx * avg_price st,
               st_quantity = st_quantity st - amount tx,
               avg_price = avg_price st\<rparr>)
      else st)"

section \<open>Example data\<close>

text \<open>
  A store's coercion, for the examples: rounding to the nearest value of the scale, a tie away
  from zero. No example below rounds a tie.
\<close>

definition round_to_scale :: "nat \<Rightarrow> decimal \<Rightarrow> decimal" where
  "round_to_scale sc x =
     (if 0 \<le> x then of_int \<lfloor>x * 10 ^ sc + 1 / 2\<rfloor> / 10 ^ sc
      else - (of_int \<lfloor>- x * 10 ^ sc + 1 / 2\<rfloor> / 10 ^ sc))"

definition alice :: user where
  "alice = \<lparr>u_id = 1, username = ''alice'', email = ''alice@example.com'',
             hashed_password = ''x'', balance = 10000, role = ''user'', u_is_active = True\<rparr>"

definition btc :: asset where
  "btc = \<lparr>a_id = 1, ticker = ''BTC'', a_name = ''Bitcoin'', binance_symbol = ''BTCUSDT'',
           current_price = 100, is_active = True\<rparr>"

definition eth :: asset where
  "eth = \<lparr>a_id = 2, ticker = ''ETH'', a_name = ''Ethereum'', binance_symbol = ''ETHUSDT'',
           current_price = 3000, is_active = True\<rparr>"

definition sol :: asset where
  "sol = \<lparr>a_id = 3, ticker = ''SOL'', a_name = ''Solana'', binance_symbol = ''SOLUSDT'',
           current_price = 90, is_active = False\<rparr>"

definition btc_dash :: asset where
  "btc_dash = btc\<lparr>binance_symbol := ''btc-usdt''\<rparr>"

definition buy1 :: trade_request where
  "buy1 = \<lparr>asset_ticker = ''BTC'', req_amount = 1\<rparr>"

definition buy_tiny :: trade_request where
  "buy_tiny = \<lparr>asset_ticker = ''BTC'', req_amount = 1 / 25000\<rparr>"

definition buy1000 :: trade_request where
  "buy1000 = \<lparr>asset_ticker = ''BTC'', req_amount = 1000\<rparr>"

definition holding5 :: portfolio where
  "holding5 = \<lparr>p_user_id = 1, p_asset_id = 1, quantity = 5\<rparr>"

definition holding_half :: portfolio where
  "holding_half = \<lparr>p_user_id = 1, p_asset_id = 1, quantity = 1 / 2\<rparr>"

definition holding0 :: portfolio where
  "holding0 = \<lparr>p_user_id = 1, p_asset_id = 1, quantity = 0\<rparr>"

definition tx_buy :: "decimal \<Rightarrow> decimal \<Rightarrow> datetime \<Rightarrow> transaction" where
  "tx_buy q p t = \<lparr>t_user_id = 1, t_asset_id = 1, amount = q, price_at_transaction = p,
                   t_type = ''BUY'', timestamp = t\<rparr>"

definition tx_sell :: "decimal \<Rightarrow> decimal \<Rightarrow> datetime \<Rightarrow> transaction" where
  "tx_sell q p t = \<lparr>t_user_id = 1, t_asset_id = 1, amount = q, price_at_transaction = p,
                    t_type = ''SELL'', timestamp = t\<rparr>"

definition store0 :: store where
  "store0 = \<lparr>users = [alice], assets = [btc], portfolios = [], transactions = [],
              price_history = []\<rparr>"

definition store_neg :: store where
  "store_neg = \<lparr>users = [alice\<lparr>balance := 0\<rparr>], assets = [btc\<lparr>current_price := - 1\<rparr>],
                 portfolios = [holding5], transactions = [], price_history = []\<rparr>"

definition store_traded :: store where
  "store_traded = \<lparr>users = [alice\<lparr>balance := 9500\<rparr>], assets = [btc], portfolios = [holding5],
                    transactions = [\<lparr>t_user_id = 1, t_asset_id = 1, amount = 5,
                                    price_at_transaction = 100, t_type = ''BUY'', timestamp = 3\<rparr>],
                    price_history = []\<rparr>"

definition store_avg :: store where
  "store_avg = store0\<lparr>portfolios := [\<lparr>p_user_id = 1, p_asset_id = 1, quantity = 2\<rparr>],
                        transactions := [tx_buy 1 200 2, tx_sell 1 500 3, tx_buy 2 100 1]\<rparr>"

definition store_sold_out :: store where
  "store_sold_out = store0\<lparr>portfolios := [holding0],
                             transactions := [tx_buy 1 100 1, tx_sell 1 100 2]\<rparr>"

definition bob :: user where
  "bob = \<lparr>u_id = 2, username = ''bob'', email = ''bob@example.com'',
           hashed_password = ''y'', balance = 500, role = ''user'', u_is_active = True\<rparr>"

definition store_two_users :: store where
  "store_two_users =
     \<lparr>users = [alice, bob], assets = [btc, eth],
      portfolios = [\<lparr>p_user_id = 1, p_asset_id = 1, quantity = 2\<rparr>,
                    \<lparr>p_user_id = 2, p_asset_id = 1, quantity = 7\<rparr>,
                    \<lparr>p_user_id = 1, p_asset_id = 2, quantity = 3\<rparr>,
                    \<lparr>p_user_id = 2, p_asset_id = 2, quantity = 1\<rparr>],
      transactions = [tx_buy 1 200 2,
                      \<lparr>t_user_id = 2, t_asset_id = 2, amount = 1, price_at_transaction = 2500,
                       t_type = ''BUY'', timestamp = 4\<rparr>],
      price_history = []\<rparr>"

definition store_market :: store where
  "store_market = store0\<lparr>assets := [btc, eth, sol],
                          price_history := [\<lparr>h_asset_id = 1, price = 100, h_timestamp = 1\<rparr>]\<rparr>"

definition feed_down :: "string list \<Rightarrow> (string \<times> rat) list option" where
  "feed_down symbols = None"

definition feed_three :: "string list \<Rightarrow> (string \<times> rat) list option" where
  "feed_three symbols = Some [(''BTCUSDT'', 100), (''ETHUSDT'', 3100), (''SOLUSDT'', 95)]"

section \<open>Properties of trade execution\<close>

text \<open>
  Lookups: what \<open>scalar_one_or_none\<close> and \<open>find\<close> return, and how the lookups read a
  table after an update of the row they found.
\<close>

lemma scalar_one_or_none_Some:
  "scalar_one_or_none xs = Inr (Some x) \<longleftrightarrow> xs = [x]"
  by (cases xs rule: scalar_one_or_none.cases) auto

lemma scalar_one_or_none_None:
  "scalar_one_or_none xs = Inr None \<longleftrightarrow> xs = []"
  by (cases xs rule: scalar_one_or_none.cases) auto

lemma filter_map_upd_Nil:
  "filter P xs = [] \<Longrightarrow> filter P (map (\<lambda>y. if P y then f y else y) xs) = []"
  by (induction xs) (simp_all split: if_splits)

lemma filter_map_upd_single:
  "filter P xs = [x] \<Longrightarrow> P (f x) \<Longrightarrow>
   filter P (map (\<lambda>y. if P y then f y else y) xs) = [f x]"
  by (induction xs) (simp_all split: if_splits add: filter_map_upd_Nil)

lemma filter_single_holds:
  assumes "filter P xs = [x]"
  shows "P x"
proof -
  have "x \<in> set (filter P xs)" using assms by simp
  then show ?thesis by simp
qed

lemma filter_single_unique:
  assumes "filter P xs = [p]" "x \<in> set xs" "P x"
  shows "x = p"
proof -
  have "x \<in> set (filter P xs)" using assms(2,3) by simp
  then have "x \<in> set [p]" by (simp only: assms(1))
  then show ?thesis by simp
qed

lemma find_update_first:
  "find P xs = Some x \<Longrightarrow> P (f x) \<Longrightarrow> find P (update_first P f xs) = Some (f x)"
  by (induction xs) (auto split: if_splits)

lemma find_Some_holds: "find P xs = Some x \<Longrightarrow> P x \<and> x \<in> set xs"
  by (induction xs) (auto split: if_splits)

lemma get_valid_resources_Inr:
  "get_valid_resources s user_id t = Inr (u, a) \<Longrightarrow>
   user_get_by_id s user_id = Some u \<and> get_by_ticker s t = Inr (Some a)"
  by (auto simp: get_valid_resources_def Let_def split: sum.splits option.splits)

lemma round_to_scale_nonneg: "0 \<le> x \<Longrightarrow> 0 \<le> round_to_scale sc x"
proof -
  assume x: "0 \<le> x"
  then have "0 \<le> x * 10 ^ sc + 1 / 2" by simp
  then have "0 \<le> \<lfloor>x * 10 ^ sc + 1 / 2\<rfloor>" by simp
  then have "(0 :: rat) \<le> of_int \<lfloor>x * 10 ^ sc + 1 / 2\<rfloor> / 10 ^ sc" by simp
  then show ?thesis using x by (simp add: round_to_scale_def)
qed

lemma floor_numeral_divide:
  "\<lfloor>numeral m / numeral n :: rat\<rfloor> = numeral m div numeral n"
  using floor_divide_of_int_eq[of "numeral m" "numeral n", where ?'a = rat] by simp

text \<open>
  C1, as stated, fails. With balance 10000.00, price 100 and a BUY of 0.00004 the user and
  the asset exist, the amount is positive and the balance covers the cost of 0.004; the call
  succeeds and credits a holding of 0.00004, but the committed balance is still 10000: the
  column of the balance has two decimal places, and 9999.996 is stored as 10000.00. The debit
  is not exactly amount * price.
\<close>

theorem buy_of_small_amount_debits_nothing:
  "find (\<lambda>x. u_id x = 1) (users store0) = Some alice
   \<and> filter (\<lambda>x. ticker x = asset_ticker buy_tiny) (assets store0) = [btc]
   \<and> 0 < req_amount buy_tiny
   \<and> current_price btc * req_amount buy_tiny \<le> balance alice
   \<and> balance alice - req_amount buy_tiny * current_price btc = 9999996 / 1000
   \<and> execute_trade round_to_scale (open_session store0) 1 buy_tiny ''BUY'' 7 =
       (Inr (\<lparr>t_user_id = 1, t_asset_id = 1, amount = 1 / 25000, price_at_transaction = 100,
                t_type = ''BUY'', timestamp = 7\<rparr>, ''BTC''),
        \<lparr>committed = \<lparr>users = [alice], assets = [btc],
                       portfolios = [\<lparr>p_user_id = 1, p_asset_id = 1, quantity = 1 / 25000\<rparr>],
                       transactions = [\<lparr>t_user_id = 1, t_asset_id = 1, amount = 1 / 25000,
                                        price_at_transaction = 100, t_type = ''BUY'',
                                        timestamp = 7\<rparr>],
                       price_history = []\<rparr>,
         pending = \<lparr>users = [alice], assets = [btc],
                       portfolios = [\<lparr>p_user_id = 1, p_asset_id = 1, quantity = 1 / 25000\<rparr>],
                       transactions = [\<lparr>t_user_id = 1, t_asset_id = 1, amount = 1 / 25000,
                                        price_at_transaction = 100, t_type = ''BUY'',
                                        timestamp = 7\<rparr>],
                       price_history = []\<rparr>,
         commits = 1\<rparr>)
   \<and> balance alice \<noteq> balance alice - req_amount buy_tiny * current_price btc"
  by (simp add: execute_trade_def open_session_def get_valid_resources_def user_get_by_id_def
      get_by_ticker_def get_by_user_and_asset_def process_buy_def update_balance_def
      portfolio_create_def transaction_create_def commit_def round_to_scale_def Let_def
      floor_numeral_divide store0_def alice_def btc_def buy_tiny_def)

text \<open>
  C1, amended. Let the user exist (\<open>u\<close> is the row of that id), the asset exist (\<open>a\<close> is
  the one row of that ticker) and \<open>h\<close> be the holding of that user and asset (no row, or the
  one row), \<open>held\<close> its quantity. For a positive amount that the balance covers,
  \<open>current_price a * amount \<le> balance u\<close>, a BUY on a fresh session returns the created
  transaction and commits, in one commit, the store \<open>s'\<close>, whatever the store's coercion
  \<open>numeric\<close>: the user's balance is \<open>balance - amount * current_price\<close> coerced to the two
  decimal places of its column; the holding of that user and asset is \<open>held + amount\<close>
  coerced to eight decimal places (a new row when there was none); the ledger has exactly one
  more row, a BUY of the amount coerced to eight decimal places, at the asset's current price;
  and nothing else in the store has changed. Where the coercion leaves these three values as
  they are, the debit is exactly \<open>amount * current_price\<close>, the credit exactly \<open>amount\<close>
  and the ledger row has the amount of the request. That nothing is written when the call
  fails is C3.
\<close>

theorem buy_commits_values_at_column_scale:
  fixes numeric :: "nat \<Rightarrow> decimal \<Rightarrow> decimal" and now :: datetime
    and held :: decimal and tx :: transaction and s' :: store
  assumes user: "find (\<lambda>x. u_id x = user_id) (users s) = Some u"
    and asset: "filter (\<lambda>x. ticker x = asset_ticker td) (assets s) = [a]"
    and holding: "filter (\<lambda>p. p_user_id p = user_id \<and> p_asset_id p = a_id a) (portfolios s) =
                    (case h of None \<Rightarrow> [] | Some p \<Rightarrow> [p])"
    and pos: "0 < req_amount td"
    and funds: "current_price a * req_amount td \<le> balance u"
  defines "held \<equiv> (case h of None \<Rightarrow> 0 | Some p \<Rightarrow> quantity p)"
    and "tx \<equiv> \<lparr>t_user_id = user_id, t_asset_id = a_id a, amount = numeric 8 (req_amount td),
                 price_at_transaction = current_price a, t_type = ''BUY'', timestamp = now\<rparr>"
    and "s' \<equiv> s\<lparr>users := update_first (\<lambda>x. u_id x = user_id)
                     (\<lambda>x. x\<lparr>balance := numeric 2 (balance x - req_amount td * current_price a)\<rparr>)
                     (users s),
                 portfolios :=
                   (case h of
                      None \<Rightarrow> portfolios s @
                                [\<lparr>p_user_id = user_id, p_asset_id = a_id a,
                                  quantity = numeric 8 (req_amount td)\<rparr>]
                    | Some p \<Rightarrow>
                        map (\<lambda>x. if p_user_id x = user_id \<and> p_asset_id x = a_id a
                                  then x\<lparr>quantity := numeric 8 (quantity x + req_amount td)\<rparr>
                                  else x)
                            (portfolios s)),
                 transactions := transactions s @ [tx]\<rparr>"
  shows "execute_trade numeric (open_session s) user_id td ''BUY'' now =
           (Inr (tx, ticker a), \<lparr>committed = s', pending = s', commits = 1\<rparr>)
         \<and> find (\<lambda>x. u_id x = user_id) (users s') =
             Some (u\<lparr>balance := numeric 2 (balance u - req_amount td * current_price a)\<rparr>)
         \<and> filter (\<lambda>p. p_user_id p = user_id \<and> p_asset_id p = a_id a) (portfolios s') =
             [\<lparr>p_user_id = user_id, p_asset_id = a_id a,
               quantity = numeric 8 (held + req_amount td)\<rparr>]
         \<and> (numeric 2 (balance u - req_amount td * current_price a) =
               balance u - req_amount td * current_price a
             \<and> numeric 8 (held + req_amount td) = held + req_amount td
             \<and> numeric 8 (req_amount td) = req_amount td \<longrightarrow>
               find (\<lambda>x. u_id x = user_id) (users s') =
                 Some (u\<lparr>balance := balance u - req_amount td * current_price a\<rparr>)
               \<and> filter (\<lambda>p. p_user_id p = user_id \<and> p_asset_id p = a_id a) (portfolios s') =
                   [\<lparr>p_user_id = user_id, p_asset_id = a_id a, quantity = held + req_amount td\<rparr>]
               \<and> transactions s' =
                   transactions s @
                   [\<lparr>t_user_id = user_id, t_asset_id = a_id a, amount = req_amount td,
                     price_at_transaction = current_price a, t_type = ''BUY'',
                     timestamp = now\<rparr>])"
proof -
  let ?match = "\<lambda>p. p_user_id p = user_id \<and> p_asset_id p = a_id a"
  have uid: "u_id u = user_id"
    using user find_Some_holds[of "\<lambda>x. u_id x = user_id" "users s" u] by simp
  have res: "get_valid_resources s user_id (asset_ticker td) = Inr (u, a)"
    using user asset by (simp add: get_valid_resources_def user_get_by_id_def get_by_ticker_def)
  have look: "get_by_user_and_asset s user_id (a_id a) = Inr h"
    using holding by (cases h) (simp_all add: get_by_user_and_asset_def)
  have nofail: "\<not> balance u < current_price a * req_amount td"
    using funds by simp
  have run: "execute_trade numeric (open_session s) user_id td ''BUY'' now =
           (Inr (tx, ticker a), \<lparr>committed = s', pending = s', commits = 1\<rparr>)"
  proof (cases h)
    case None
    then show ?thesis
      using res look nofail uid
      by (simp add: execute_trade_def open_session_def process_buy_def commit_def
          update_balance_def portfolio_create_def transaction_create_def tx_def s'_def
          mult.commute Let_def)
  next
    case (Some p)
    then have "filter ?match (portfolios s) = [p]" using holding by simp
    then have "?match p" by (rule filter_single_holds)
    then show ?thesis
      using res look nofail uid Some
      by (simp add: execute_trade_def open_session_def process_buy_def commit_def
          update_balance_def update_quantity_def transaction_create_def tx_def s'_def
          mult.commute Let_def)
  qed
  have bal: "find (\<lambda>x. u_id x = user_id) (users s') =
             Some (u\<lparr>balance := numeric 2 (balance u - req_amount td * current_price a)\<rparr>)"
    using user uid by (simp add: s'_def find_update_first)
  have hold: "filter ?match (portfolios s') =
             [\<lparr>p_user_id = user_id, p_asset_id = a_id a,
               quantity = numeric 8 (held + req_amount td)\<rparr>]"
  proof (cases h)
    case None
    then have "filter ?match (portfolios s) = []" using holding by simp
    then show ?thesis using None by (simp add: s'_def held_def)
  next
    case (Some p)
    then have f: "filter ?match (portfolios s) = [p]" using holding by simp
    then have k: "?match p" by (rule filter_single_holds)
    have "p\<lparr>quantity := numeric 8 (quantity p + req_amount td)\<rparr> =
          \<lparr>p_user_id = user_id, p_asset_id = a_id a,
           quantity = numeric 8 (quantity p + req_amount td)\<rparr>"
      using k by simp
    then show ?thesis
      using Some k
        filter_map_upd_single[OF f, of "\<lambda>x. x\<lparr>quantity := numeric 8 (quantity x + req_amount td)\<rparr>"]
      by (simp add: s'_def held_def)
  qed
  have led: "transactions s' = transactions s @ [tx]"
    by (simp add: s'_def)
  show ?thesis using run bal hold led by (simp add: tx_def)
qed

text \<open>
  The example of the specification, balance 10000, price 100, BUY 1, with rounding to the
  nearest value of the scale: balance 9900, holding 1, one BUY row at price 100.
\<close>

theorem buy_witness:
  "find (\<lambda>x. u_id x = 1) (users store0) = Some alice
   \<and> filter (\<lambda>x. ticker x = asset_ticker buy1) (assets store0) = [btc]
   \<and> filter (\<lambda>p. p_user_id p = 1 \<and> p_asset_id p = a_id btc) (portfolios store0) = []
   \<and> 0 < req_amount buy1
   \<and> current_price btc * req_amount buy1 \<le> balance alice
   \<and> round_to_scale 2 (balance alice - req_amount buy1 * current_price btc) = 9900
   \<and> round_to_scale 8 (req_amount buy1) = 1
   \<and> execute_trade round_to_scale (open_session store0) 1 buy1 ''BUY'' 7 =
       (Inr (\<lparr>t_user_id = 1, t_asset_id = 1, amount = 1, price_at_transaction = 100,
                t_type = ''BUY'', timestamp = 7\<rparr>, ''BTC''),
        \<lparr>committed = \<lparr>users = [alice\<lparr>balance := 9900\<rparr>], assets = [btc],
                       portfolios = [\<lparr>p_user_id = 1, p_asset_id = 1, quantity = 1\<rparr>],
                       transactions = [\<lparr>t_user_id = 1, t_asset_id = 1, amount = 1,
                                        price_at_transaction = 100, t_type = ''BUY'',
                                        timestamp = 7\<rparr>],
                       price_history = []\<rparr>,
         pending = \<lparr>users = [alice\<lparr>balance := 9900\<rparr>], assets = [btc],
                       portfolios = [\<lparr>p_user_id = 1, p_asset_id = 1, quantity = 1\<rparr>],
                       transactions = [\<lparr>t_user_id = 1, t_asset_id = 1, amount = 1,
                                        price_at_transaction = 100, t_type = ''BUY'',
                                        timestamp = 7\<rparr>],
                       price_history = []\<rparr>,
         commits = 1\<rparr>)"
proof -
  have h1: "find (\<lambda>x. u_id x = 1) (users store0) = Some alice"
    by (simp add: store0_def alice_def)
  have h2: "filter (\<lambda>x. ticker x = asset_ticker buy1) (assets store0) = [btc]"
    by (simp add: store0_def btc_def buy1_def)
  have h3: "filter (\<lambda>p. p_user_id p = 1 \<and> p_asset_id p = a_id btc) (portfolios store0) =
              (case None of None \<Rightarrow> [] | Some p \<Rightarrow> [p])"
    by (simp add: store0_def)
  have h4: "0 < req_amount buy1" by (simp add: buy1_def)
  have h5: "current_price btc * req_amount buy1 \<le> balance alice"
    by (simp add: buy1_def btc_def alice_def)
  have r2: "round_to_scale 2 (balance alice - req_amount buy1 * current_price btc) = 9900"
    and r8: "round_to_scale 8 (req_amount buy1) = 1"
    by (simp_all add: round_to_scale_def floor_numeral_divide buy1_def btc_def alice_def)
  note run = buy_commits_values_at_column_scale[OF h1 h2 h3 h4 h5,
      where numeric = round_to_scale and now = 7, THEN conjunct1]
  have r2': "round_to_scale 2 (balance alice - 1 * 100) = 9900"
    using r2 by (simp add: buy1_def btc_def)
  have r8': "round_to_scale 8 1 = 1"
    using r8 by (simp add: buy1_def)
  show ?thesis
    using h1 h2 h4 h5 r2 r8 run
    by (simp add: store0_def alice_def btc_def buy1_def r2'[unfolded alice_def, simplified] r8')
qed

text \<open>
  C2, as stated, fails in the same way. With a holding of 5, price 100 and a SELL of 0.00004
  the call succeeds and debits the holding by 0.00004, but the committed balance is still
  10000: 10000.004 is stored as 10000.00. The credit is not exactly amount * price.
\<close>

theorem sell_of_small_amount_credits_nothing:
  "find (\<lambda>x. u_id x = 1) (users (store0\<lparr>portfolios := [holding5]\<rparr>)) = Some alice
   \<and> filter (\<lambda>x. ticker x = asset_ticker buy_tiny) (assets (store0\<lparr>portfolios := [holding5]\<rparr>)) = [btc]
   \<and> filter (\<lambda>p. p_user_id p = 1 \<and> p_asset_id p = a_id btc)
        (portfolios (store0\<lparr>portfolios := [holding5]\<rparr>)) = [holding5]
   \<and> 0 < req_amount buy_tiny
   \<and> req_amount buy_tiny \<le> quantity holding5
   \<and> balance alice + req_amount buy_tiny * current_price btc = 10000004 / 1000
   \<and> execute_trade round_to_scale (open_session (store0\<lparr>portfolios := [holding5]\<rparr>)) 1 buy_tiny
        ''SELL'' 7 =
       (Inr (\<lparr>t_user_id = 1, t_asset_id = 1, amount = 1 / 25000, price_at_transaction = 100,
                t_type = ''SELL'', timestamp = 7\<rparr>, ''BTC''),
        \<lparr>committed = \<lparr>users = [alice], assets = [btc],
                       portfolios = [\<lparr>p_user_id = 1, p_asset_id = 1, quantity = 5 - 1 / 25000\<rparr>],
                       transactions = [\<lparr>t_user_id = 1, t_asset_id = 1, amount = 1 / 25000,
                                        price_at_transaction = 100, t_type = ''SELL'',
                                        timestamp = 7\<rparr>],
                       price_history = []\<rparr>,
         pending = \<lparr>users = [alice], assets = [btc],
                       portfolios = [\<lparr>p_user_id = 1, p_asset_id = 1, quantity = 5 - 1 / 25000\<rparr>],
                       transactions = [\<lparr>t_user_id = 1, t_asset_id = 1, amount = 1 / 25000,
                                        price_at_transaction = 100, t_type = ''SELL'',
                                        timestamp = 7\<rparr>],
                       price_history = []\<rparr>,
         commits = 1\<rparr>)
   \<and> balance alice \<noteq> balance alice + req_amount buy_tiny * current_price btc"
  by (simp add: execute_trade_def open_session_def get_valid_resources_def user_get_by_id_def
      get_by_ticker_def get_by_user_and_asset_def process_sell_def update_balance_def
      update_quantity_def transaction_create_def commit_def round_to_scale_def Let_def
      floor_numeral_divide store0_def alice_def btc_def holding5_def buy_tiny_def)

text \<open>
  C2, amended. Let the user and the asset exist and \<open>h\<close> be the holding of that user and
  asset, as in C1, and let the amount be positive. Without a holding, or with a holding
  smaller than the amount, a SELL raises \<open>InsufficientHolding\<close> and leaves the session as it
  was. Otherwise it returns the created transaction and commits, in one commit, the store
  \<open>s'\<close>, whatever the store's coercion \<open>numeric\<close>: the user's balance is
  \<open>balance + amount * current_price\<close> coerced to the two decimal places of its column; the
  holding is \<open>quantity - amount\<close> coerced to eight decimal places; the ledger has exactly
  one more row, a SELL of the amount coerced to eight decimal places, at the asset's current
  price; and nothing else in the store has changed. Where the coercion leaves these three
  values as they are, the credit is exactly \<open>amount * current_price\<close>, the debit exactly
  \<open>amount\<close> and the ledger row has the amount of the request.
\<close>

theorem sell_commits_values_at_column_scale:
  fixes numeric :: "nat \<Rightarrow> decimal \<Rightarrow> decimal" and now :: datetime
    and tx :: transaction and s' :: store
  assumes user: "find (\<lambda>x. u_id x = user_id) (users s) = Some u"
    and asset: "filter (\<lambda>x. ticker x = asset_ticker td) (assets s) = [a]"
    and holding: "filter (\<lambda>p. p_user_id p = user_id \<and> p_asset_id p = a_id a) (portfolios s) =
                    (case h of None \<Rightarrow> [] | Some p \<Rightarrow> [p])"
    and pos: "0 < req_amount td"
  defines "tx \<equiv> \<lparr>t_user_id = user_id, t_asset_id = a_id a, amount = numeric 8 (req_amount td),
                 price_at_transaction = current_price a, t_type = ''SELL'', timestamp = now\<rparr>"
    and "s' \<equiv> s\<lparr>users := update_first (\<lambda>x. u_id x = user_id)
                     (\<lambda>x. x\<lparr>balance := numeric 2 (balance x + req_amount td * current_price a)\<rparr>)
                     (users s),
                 portfolios :=
                   map (\<lambda>x. if p_user_id x = user_id \<and> p_asset_id x = a_id a
                             then x\<lparr>quantity := numeric 8 (quantity x - req_amount td)\<rparr>
                             else x)
                       (portfolios s),
                 transactions := transactions s @ [tx]\<rparr>"
  shows "(h = None \<or> (\<exists>p. h = Some p \<and> quantity p < req_amount td) \<longrightarrow>
            execute_trade numeric (open_session s) user_id td ''SELL'' now =
              (Inl InsufficientHolding, open_session s))
         \<and> (\<forall>p. h = Some p \<and> req_amount td \<le> quantity p \<longrightarrow>
              execute_trade numeric (open_session s) user_id td ''SELL'' now =
                (Inr (tx, ticker a), \<lparr>committed = s', pending = s', commits = 1\<rparr>)
              \<and> find (\<lambda>x. u_id x = user_id) (users s') =
                  Some (u\<lparr>balance := numeric 2 (balance u + req_amount td * current_price a)\<rparr>)
              \<and> filter (\<lambda>p. p_user_id p = user_id \<and> p_asset_id p = a_id a) (portfolios s') =
                  [\<lparr>p_user_id = user_id, p_asset_id = a_id a,
                    quantity = numeric 8 (quantity p - req_amount td)\<rparr>]
              \<and> (numeric 2 (balance u + req_amount td * current_price a) =
                    balance u + req_amount td * current_price a
                  \<and> numeric 8 (quantity p - req_amount td) = quantity p - req_amount td
                  \<and> numeric 8 (req_amount td) = req_amount td \<longrightarrow>
                    find (\<lambda>x. u_id x = user_id) (users s') =
                      Some (u\<lparr>balance := balance u + req_amount td * current_price a\<rparr>)
                    \<and> filter (\<lambda>p. p_user_id p = user_id \<and> p_asset_id p = a_id a)
                         (portfolios s') =
                        [\<lparr>p_user_id = user_id, p_asset_id = a_id a,
                          quantity = quantity p - req_amount td\<rparr>]
                    \<and> transactions s' =
                        transactions s @
                        [\<lparr>t_user_id = user_id, t_asset_id = a_id a, amount = req_amount td,
                          price_at_transaction = current_price a, t_type = ''SELL'',
                          timestamp = now\<rparr>]))"
proof -
  let ?match = "\<lambda>p. p_user_id p = user_id \<and> p_asset_id p = a_id a"
  have uid: "u_id u = user_id"
    using user find_Some_holds[of "\<lambda>x. u_id x = user_id" "users s" u] by simp
  have res: "get_valid_resources s user_id (asset_ticker td) = Inr (u, a)"
    using user asset by (simp add: get_valid_resources_def user_get_by_id_def get_by_ticker_def)
  have look: "get_by_user_and_asset s user_id (a_id a) = Inr h"
    using holding by (cases h) (simp_all add: get_by_user_and_asset_def)
  have reject: "execute_trade numeric (open_session s) user_id td ''SELL'' now =
              (Inl InsufficientHolding, open_session s)"
    if "h = None \<or> (\<exists>p. h = Some p \<and> quantity p < req_amount td)"
    using that res look
    by (auto simp add: execute_trade_def open_session_def process_sell_def Let_def)
  have accept: "execute_trade numeric (open_session s) user_id td ''SELL'' now =
                (Inr (tx, ticker a), \<lparr>committed = s', pending = s', commits = 1\<rparr>)
              \<and> find (\<lambda>x. u_id x = user_id) (users s') =
                  Some (u\<lparr>balance := numeric 2 (balance u + req_amount td * current_price a)\<rparr>)
              \<and> filter ?match (portfolios s') =
                  [\<lparr>p_user_id = user_id, p_asset_id = a_id a,
                    quantity = numeric 8 (quantity p - req_amount td)\<rparr>]
              \<and> transactions s' = transactions s @ [tx]"
    if h: "h = Some p" and enough: "req_amount td \<le> quantity p" for p
  proof -
    have f: "filter ?match (portfolios s) = [p]"
      using holding h by simp
    then have k: "?match p"
      by (rule filter_single_holds)
    have nofail: "\<not> quantity p < req_amount td" using enough by simp
    have run: "execute_trade numeric (open_session s) user_id td ''SELL'' now =
                (Inr (tx, ticker a), \<lparr>committed = s', pending = s', commits = 1\<rparr>)"
      using res look h k nofail uid
      by (simp add: execute_trade_def open_session_def process_sell_def commit_def
          update_balance_def update_quantity_def transaction_create_def tx_def s'_def
          mult.commute Let_def)
    have bal: "find (\<lambda>x. u_id x = user_id) (users s') =
                  Some (u\<lparr>balance := numeric 2 (balance u + req_amount td * current_price a)\<rparr>)"
      using user uid by (simp add: s'_def find_update_first)
    have "p\<lparr>quantity := numeric 8 (quantity p - req_amount td)\<rparr> =
          \<lparr>p_user_id = user_id, p_asset_id = a_id a,
           quantity = numeric 8 (quantity p - req_amount td)\<rparr>"
      using k by simp
    then have hold: "filter ?match (portfolios s') =
                  [\<lparr>p_user_id = user_id, p_asset_id = a_id a,
                    quantity = numeric 8 (quantity p - req_amount td)\<rparr>]"
      using k
        filter_map_upd_single[OF f, of "\<lambda>x. x\<lparr>quantity := numeric 8 (quantity x - req_amount td)\<rparr>"]
      by (simp add: s'_def)
    have led: "transactions s' = transactions s @ [tx]"
      by (simp add: s'_def)
    show ?thesis using run bal hold led by simp
  qed
  show ?thesis
  proof (intro conjI impI allI)
    assume "h = None \<or> (\<exists>p. h = Some p \<and> quantity p < req_amount td)"
    then show "execute_trade numeric (open_session s) user_id td ''SELL'' now =
              (Inl InsufficientHolding, open_session s)"
      by (rule reject)
  next
    fix p
    assume "h = Some p \<and> req_amount td \<le> quantity p"
    then show "execute_trade numeric (open_session s) user_id td ''SELL'' now =
                (Inr (tx, ticker a), \<lparr>committed = s', pending = s', commits = 1\<rparr>)"
      using accept[of p] by simp
  next
    fix p
    assume "h = Some p \<and> req_amount td \<le> quantity p"
    then show "find (\<lambda>x. u_id x = user_id) (users s') =
                  Some (u\<lparr>balance := numeric 2 (balance u + req_amount td * current_price a)\<rparr>)"
      using accept[of p] by simp
  next
    fix p
    assume "h = Some p \<and> req_amount td \<le> quantity p"
    then show "filter ?match (portfolios s') =
                  [\<lparr>p_user_id = user_id, p_asset_id = a_id a,
                    quantity = numeric 8 (quantity p - req_amount td)\<rparr>]"
      using accept[of p] by simp
  next
    fix p
    assume "h = Some p \<and> req_amount td \<le> quantity p"
      and "numeric 2 (balance u + req_amount td * current_price a) =
             balance u + req_amount td * current_price a
           \<and> numeric 8 (quantity p - req_amount td) = quantity p - req_amount td
           \<and> numeric 8 (req_amount td) = req_amount td"
    then show "find (\<lambda>x. u_id x = user_id) (users s') =
                      Some (u\<lparr>balance := balance u + req_amount td * current_price a\<rparr>)"
      using accept[of p] by simp
  next
    fix p
    assume "h = Some p \<and> req_amount td \<le> quantity p"
      and "numeric 2 (balance u + req_amount td * current_price a) =
             balance u + req_amount td * current_price a
           \<and> numeric 8 (quantity p - req_amount td) = quantity p - req_amount td
           \<and> numeric 8 (req_amount td) = req_amount td"
    then show "filter ?match (portfolios s') =
                        [\<lparr>p_user_id = user_id, p_asset_id = a_id a,
                          quantity = quantity p - req_amount td\<rparr>]"
      using accept[of p] by simp
  next
    fix p
    assume "h = Some p \<and> req_amount td \<le> quantity p"
      and "numeric 2 (balance u + req_amount td * current_price a) =
             balance u + req_amount td * current_price a
           \<and> numeric 8 (quantity p - req_amount td) = quantity p - req_amount td
           \<and> numeric 8 (req_amount td) = req_amount td"
    then show "transactions s' =
                        transactions s @
                        [\<lparr>t_user_id = user_id, t_asset_id = a_id a, amount = req_amount td,
                          price_at_transaction = current_price a, t_type = ''SELL'',
                          timestamp = now\<rparr>]"
      using accept[of p] by (simp add: tx_def)
  qed
qed

text \<open>
  Holdings 5, 0.5 and none, each asked to SELL 1 at price 100, with rounding to the nearest
  value of the scale: the credit of 100 and the debit of 1 are stored as they are.
\<close>

theorem sell_witness:
  "find (\<lambda>x. u_id x = 1) (users (store0\<lparr>portfolios := [holding5]\<rparr>)) = Some alice
   \<and> filter (\<lambda>x. ticker x = asset_ticker buy1) (assets (store0\<lparr>portfolios := [holding5]\<rparr>)) = [btc]
   \<and> filter (\<lambda>p. p_user_id p = 1 \<and> p_asset_id p = a_id btc)
        (portfolios (store0\<lparr>portfolios := [holding5]\<rparr>)) = [holding5]
   \<and> filter (\<lambda>p. p_user_id p = 1 \<and> p_asset_id p = a_id btc)
        (portfolios (store0\<lparr>portfolios := [holding_half]\<rparr>)) = [holding_half]
   \<and> filter (\<lambda>p. p_user_id p = 1 \<and> p_asset_id p = a_id btc) (portfolios store0) = []
   \<and> 0 < req_amount buy1
   \<and> req_amount buy1 \<le> quantity holding5
   \<and> quantity holding_half < req_amount buy1
   \<and> round_to_scale 2 (balance alice + req_amount buy1 * current_price btc) =
       balance alice + req_amount buy1 * current_price btc
   \<and> round_to_scale 8 (quantity holding5 - req_amount buy1) = quantity holding5 - req_amount buy1
   \<and> round_to_scale 8 (req_amount buy1) = req_amount buy1
   \<and> execute_trade round_to_scale (open_session (store0\<lparr>portfolios := [holding_half]\<rparr>)) 1 buy1
        ''SELL'' 7 =
       (Inl InsufficientHolding, open_session (store0\<lparr>portfolios := [holding_half]\<rparr>))
   \<and> execute_trade round_to_scale (open_session store0) 1 buy1 ''SELL'' 7 =
       (Inl InsufficientHolding, open_session store0)
   \<and> execute_trade round_to_scale (open_session (store0\<lparr>portfolios := [holding5]\<rparr>)) 1 buy1
        ''SELL'' 7 =
       (Inr (\<lparr>t_user_id = 1, t_asset_id = 1, amount = 1, price_at_transaction = 100,
                t_type = ''SELL'', timestamp = 7\<rparr>, ''BTC''),
        \<lparr>committed = \<lparr>users = [alice\<lparr>balance := 10100\<rparr>], assets = [btc],
                       portfolios = [\<lparr>p_user_id = 1, p_asset_id = 1, quantity = 4\<rparr>],
                       transactions = [\<lparr>t_user_id = 1, t_asset_id = 1, amount = 1,
                                        price_at_transaction = 100, t_type = ''SELL'',
                                        timestamp = 7\<rparr>],
                       price_history = []\<rparr>,
         pending = \<lparr>users = [alice\<lparr>balance := 10100\<rparr>], assets = [btc],
                       portfolios = [\<lparr>p_user_id = 1, p_asset_id = 1, quantity = 4\<rparr>],
                       transactions = [\<lparr>t_user_id = 1, t_asset_id = 1, amount = 1,
                                        price_at_transaction = 100, t_type = ''SELL'',
                                        timestamp = 7\<rparr>],
                       price_history = []\<rparr>,
         commits = 1\<rparr>)"
proof -
  let ?s5 = "store0\<lparr>portfolios := [holding5]\<rparr>"
  let ?sh = "store0\<lparr>portfolios := [holding_half]\<rparr>"
  let ?m = "\<lambda>p. p_user_id p = 1 \<and> p_asset_id p = a_id btc"
  have u5: "find (\<lambda>x. u_id x = 1) (users ?s5) = Some alice"
    and uh: "find (\<lambda>x. u_id x = 1) (users ?sh) = Some alice"
    and u0: "find (\<lambda>x. u_id x = 1) (users store0) = Some alice"
    by (simp_all add: store0_def alice_def)
  have a5: "filter (\<lambda>x. ticker x = asset_ticker buy1) (assets ?s5) = [btc]"
    and ah: "filter (\<lambda>x. ticker x = asset_ticker buy1) (assets ?sh) = [btc]"
    and a0: "filter (\<lambda>x. ticker x = asset_ticker buy1) (assets store0) = [btc]"
    by (simp_all add: store0_def btc_def buy1_def)
  have p5: "filter ?m (portfolios ?s5) = (case Some holding5 of None \<Rightarrow> [] | Some p \<Rightarrow> [p])"
    and ph: "filter ?m (portfolios ?sh) = (case Some holding_half of None \<Rightarrow> [] | Some p \<Rightarrow> [p])"
    and p0: "filter ?m (portfolios store0) = (case None of None \<Rightarrow> [] | Some p \<Rightarrow> [p])"
    by (simp_all add: store0_def holding5_def holding_half_def btc_def)
  have pos: "0 < req_amount buy1" by (simp add: buy1_def)
  have enough: "req_amount buy1 \<le> quantity holding5"
    and short: "quantity holding_half < req_amount buy1"
    by (simp_all add: buy1_def holding5_def holding_half_def)
  have r2: "round_to_scale 2 (balance alice + req_amount buy1 * current_price btc) =
              balance alice + req_amount buy1 * current_price btc"
    and rq: "round_to_scale 8 (quantity holding5 - req_amount buy1) =
               quantity holding5 - req_amount buy1"
    and r8: "round_to_scale 8 (req_amount buy1) = req_amount buy1"
    by (simp_all add: round_to_scale_def floor_numeral_divide buy1_def btc_def alice_def
        holding5_def)
  have r2': "round_to_scale 2 10100 = 10100"
    using r2 by (simp add: buy1_def btc_def alice_def)
  have rq': "round_to_scale 8 4 = 4"
    using rq by (simp add: buy1_def holding5_def)
  have r8': "round_to_scale 8 1 = 1"
    using r8 by (simp add: buy1_def)
  have run5: "execute_trade round_to_scale (open_session ?s5) 1 buy1 ''SELL'' 7 =
       (Inr (\<lparr>t_user_id = 1, t_asset_id = 1, amount = 1, price_at_transaction = 100,
                t_type = ''SELL'', timestamp = 7\<rparr>, ''BTC''),
        \<lparr>committed = \<lparr>users = [alice\<lparr>balance := 10100\<rparr>], assets = [btc],
                       portfolios = [\<lparr>p_user_id = 1, p_asset_id = 1, quantity = 4\<rparr>],
                       transactions = [\<lparr>t_user_id = 1, t_asset_id = 1, amount = 1,
                                        price_at_transaction = 100, t_type = ''SELL'',
                                        timestamp = 7\<rparr>],
                       price_history = []\<rparr>,
         pending = \<lparr>users = [alice\<lparr>balance := 10100\<rparr>], assets = [btc],
                       portfolios = [\<lparr>p_user_id = 1, p_asset_id = 1, quantity = 4\<rparr>],
                       transactions = [\<lparr>t_user_id = 1, t_asset_id = 1, amount = 1,
                                        price_at_transaction = 100, t_type = ''SELL'',
                                        timestamp = 7\<rparr>],
                       price_history = []\<rparr>,
         commits = 1\<rparr>)"
    using enough
      sell_commits_values_at_column_scale[OF u5 a5 p5 pos,
        where numeric = round_to_scale and now = 7, THEN conjunct2, THEN spec, of holding5,
        THEN mp, THEN conjunct1]
    by (simp add: store0_def alice_def btc_def buy1_def holding5_def r2' rq' r8')
  have runh: "execute_trade round_to_scale (open_session ?sh) 1 buy1 ''SELL'' 7 =
       (Inl InsufficientHolding, open_session ?sh)"
    using short
      sell_commits_values_at_column_scale[OF uh ah ph pos,
        where numeric = round_to_scale and now = 7, THEN conjunct1]
    by simp
  have run0: "execute_trade round_to_scale (open_session store0) 1 buy1 ''SELL'' 7 =
       (Inl InsufficientHolding, open_session store0)"
    using sell_commits_values_at_column_scale[OF u0 a0 p0 pos,
        where numeric = round_to_scale and now = 7, THEN conjunct1]
    by simp
  have p5': "filter ?m (portfolios ?s5) = [holding5]"
    and ph': "filter ?m (portfolios ?sh) = [holding_half]"
    and p0': "filter ?m (portfolios store0) = []"
    using p5 ph p0 by simp_all
  show ?thesis
    using u5 a5 p5' ph' p0' pos enough short r2 rq r8 run5 runh run0
    by (simp only: simp_thms)
qed

lemma process_buy_raise:
  "process_buy numeric s u a h amt c = (Some e, s1) \<Longrightarrow> s1 = s"
  by (auto simp: process_buy_def Let_def split: if_splits option.splits)

lemma process_sell_raise:
  "process_sell numeric s u a h amt c = (Some e, s1) \<Longrightarrow> s1 = s"
  by (auto simp: process_sell_def Let_def split: if_splits option.splits)

text \<open>
  C3. Whatever the session, the user, the request, the trade type and the store's coercion:
  when \<open>execute_trade\<close> raises, the session is exactly as before the call. Its committed
  rows, its pending rows and its commit count are unchanged, so no balance, holding or ledger
  row has been written.
\<close>

theorem failed_trade_changes_nothing:
  "fst (execute_trade numeric ss user_id td trade_type now) = Inl e \<Longrightarrow>
   snd (execute_trade numeric ss user_id td trade_type now) = ss"
  by (auto simp: execute_trade_def Let_def
      split: sum.splits prod.splits option.splits if_splits
      dest: process_buy_raise process_sell_raise)

text \<open>Insufficient funds, a missing user and an invalid trade type.\<close>

theorem failed_trade_witness:
  "fst (execute_trade round_to_scale (open_session store0) 1 buy1000 ''BUY'' 7) =
     Inl InsufficientFunds
   \<and> snd (execute_trade round_to_scale (open_session store0) 1 buy1000 ''BUY'' 7) =
       open_session store0
   \<and> fst (execute_trade round_to_scale (open_session store0) 2 buy1 ''BUY'' 7) = Inl UserNotFound
   \<and> snd (execute_trade round_to_scale (open_session store0) 2 buy1 ''BUY'' 7) =
       open_session store0
   \<and> fst (execute_trade round_to_scale (open_session store0) 1 buy1 ''HOLD'' 7) =
       Inl InvalidTradeType
   \<and> snd (execute_trade round_to_scale (open_session store0) 1 buy1 ''HOLD'' 7) =
       open_session store0"
proof -
  have f1: "fst (execute_trade round_to_scale (open_session store0) 1 buy1000 ''BUY'' 7) =
              Inl InsufficientFunds"
    by (simp add: execute_trade_def open_session_def get_valid_resources_def user_get_by_id_def
        get_by_ticker_def get_by_user_and_asset_def process_buy_def store0_def alice_def btc_def
        buy1000_def)
  have f2: "fst (execute_trade round_to_scale (open_session store0) 2 buy1 ''BUY'' 7) =
              Inl UserNotFound"
    by (simp add: execute_trade_def open_session_def get_valid_resources_def user_get_by_id_def
        get_by_ticker_def store0_def alice_def btc_def buy1_def)
  have f3: "fst (execute_trade round_to_scale (open_session store0) 1 buy1 ''HOLD'' 7) =
              Inl InvalidTradeType"
    by (simp add: execute_trade_def open_session_def get_valid_resources_def user_get_by_id_def
        get_by_ticker_def get_by_user_and_asset_def store0_def alice_def btc_def buy1_def)
  show ?thesis
    using f1 f2 f3 failed_trade_changes_nothing[OF f1] failed_trade_changes_nothing[OF f2]
      failed_trade_changes_nothing[OF f3]
    by simp
qed

text \<open>
  The sign invariant of C4 through \<^verbatim>\<open>_process_buy\<close>, \<^verbatim>\<open>_process_sell\<close>,
  \<open>execute_trade\<close> and \<open>reset_account\<close>, for a coercion that stores no non-negative value
  as a negative one.
\<close>

lemma list_all_update_first:
  "list_all Q xs \<Longrightarrow> find P xs = Some u \<Longrightarrow> Q (f u) \<Longrightarrow> list_all Q (update_first P f xs)"
  by (induction xs) (auto split: if_splits)

lemma process_buy_invariant:
  assumes nn: "\<And>sc x. 0 \<le> x \<Longrightarrow> 0 \<le> numeric sc x"
    and inv: "nonneg_invariant s"
    and user: "user_get_by_id s user_id = Some u"
    and pos: "0 < amt"
    and run: "process_buy numeric s u a h amt cost = (None, s1)"
  shows "nonneg_invariant s1"
proof -
  have uid: "u_id u = user_id"
    using user find_Some_holds[of "\<lambda>x. u_id x = user_id" "users s" u]
    by (simp add: user_get_by_id_def)
  have covered: "cost \<le> balance u"
    using run by (auto simp: process_buy_def split: if_splits)
  have us: "list_all (\<lambda>u. 0 \<le> balance u)
              (update_first (\<lambda>x. u_id x = user_id)
                 (\<lambda>x. x\<lparr>balance := numeric 2 (balance x + - cost)\<rparr>) (users s))"
    using inv user covered
    by (intro list_all_update_first[where u = u])
      (simp_all add: nonneg_invariant_def user_get_by_id_def nn)
  have ps: "list_all (\<lambda>p. 0 \<le> quantity p) (portfolios s)"
    using inv by (simp add: nonneg_invariant_def)
  have new: "0 \<le> numeric 8 amt"
    using pos by (simp add: nn)
  have upd: "0 \<le> numeric 8 (quantity x + amt)" if "x \<in> set (portfolios s)" for x
  proof -
    have "0 \<le> quantity x" using ps that by (simp add: list_all_iff)
    then show ?thesis using pos by (simp add: nn)
  qed
  show ?thesis
  proof (cases h)
    case None
    then have "s1 = portfolio_create numeric (update_balance numeric s (u_id u) (- cost))
                      (u_id u) (a_id a) amt"
      using run covered by (simp add: process_buy_def Let_def)
    then show ?thesis
      using us ps new uid
      by (simp add: nonneg_invariant_def update_balance_def portfolio_create_def)
  next
    case (Some p)
    then have "s1 = update_quantity numeric (update_balance numeric s (u_id u) (- cost))
                      (p_user_id p) (p_asset_id p) amt"
      using run covered by (simp add: process_buy_def Let_def)
    then show ?thesis
      using us ps upd uid
      by (auto simp: nonneg_invariant_def update_balance_def update_quantity_def list_all_iff)
  qed
qed

lemma process_sell_invariant:
  assumes nn: "\<And>sc x. 0 \<le> x \<Longrightarrow> 0 \<le> numeric sc x"
    and inv: "nonneg_invariant s"
    and user: "user_get_by_id s user_id = Some u"
    and income: "0 \<le> income"
    and holding: "get_by_user_and_asset s user_id asset_id = Inr h"
    and run: "process_sell numeric s u a h amt income = (None, s1)"
  shows "nonneg_invariant s1"
proof -
  obtain p where h: "h = Some p" and enough: "amt \<le> quantity p"
    using run by (auto simp: process_sell_def split: option.splits if_splits)
  have f: "filter (\<lambda>x. p_user_id x = user_id \<and> p_asset_id x = asset_id) (portfolios s) = [p]"
    using holding h by (simp add: get_by_user_and_asset_def scalar_one_or_none_Some)
  then have k: "p_user_id p = user_id \<and> p_asset_id p = asset_id"
    by (rule filter_single_holds)
  have uid: "u_id u = user_id"
    using user find_Some_holds[of "\<lambda>x. u_id x = user_id" "users s" u]
    by (simp add: user_get_by_id_def)
  have bal: "0 \<le> balance u"
    using inv user find_Some_holds[of "\<lambda>x. u_id x = user_id" "users s" u]
    by (auto simp: nonneg_invariant_def user_get_by_id_def list_all_iff)
  have us: "list_all (\<lambda>u. 0 \<le> balance u)
              (update_first (\<lambda>x. u_id x = user_id)
                 (\<lambda>x. x\<lparr>balance := numeric 2 (balance x + income)\<rparr>) (users s))"
    using inv user income bal
    by (intro list_all_update_first[where u = u])
      (simp_all add: nonneg_invariant_def user_get_by_id_def nn)
  have ps: "list_all (\<lambda>p. 0 \<le> quantity p)
              (map (\<lambda>x. if p_user_id x = user_id \<and> p_asset_id x = asset_id
                        then x\<lparr>quantity := numeric 8 (quantity x + - amt)\<rparr> else x) (portfolios s))"
  proof -
    have "0 \<le> numeric 8 (quantity x + - amt)"
      if "x \<in> set (portfolios s)" "p_user_id x = user_id \<and> p_asset_id x = asset_id" for x
    proof -
      have "x = p" using filter_single_unique[OF f that(1)] that(2) by simp
      then show ?thesis using enough by (simp add: nn)
    qed
    moreover have "0 \<le> quantity x" if "x \<in> set (portfolios s)" for x
      using inv that by (simp add: nonneg_invariant_def list_all_iff)
    ultimately show ?thesis by (auto simp: list_all_iff)
  qed
  have "s1 = s\<lparr>users := update_first (\<lambda>x. u_id x = user_id)
                           (\<lambda>x. x\<lparr>balance := numeric 2 (balance x + income)\<rparr>) (users s),
                 portfolios := map (\<lambda>x. if p_user_id x = user_id \<and> p_asset_id x = asset_id
                                        then x\<lparr>quantity := numeric 8 (quantity x + - amt)\<rparr> else x)
                                (portfolios s)\<rparr>"
    using run h enough k uid
    by (simp add: process_sell_def update_balance_def update_quantity_def Let_def)
  then show ?thesis
    using us ps by (simp add: nonneg_invariant_def)
qed

lemma execute_trade_invariant:
  assumes nn: "\<And>sc x. 0 \<le> x \<Longrightarrow> 0 \<le> numeric sc x"
    and inv: "nonneg_invariant s"
    and pos: "0 < req_amount td"
    and price: "\<And>a. get_by_ticker s (asset_ticker td) = Inr (Some a) \<Longrightarrow> 0 \<le> current_price a"
  shows "nonneg_invariant
           (committed (snd (execute_trade numeric (open_session s) user_id td trade_type now)))"
proof (cases "get_valid_resources s user_id (asset_ticker td)")
  case (Inl e)
  then show ?thesis using inv by (simp add: execute_trade_def open_session_def)
next
  case (Inr ua)
  obtain u a where ua: "ua = (u, a)" by (cases ua)
  have user: "user_get_by_id s user_id = Some u" and asset: "get_by_ticker s (asset_ticker td) = Inr (Some a)"
    using get_valid_resources_Inr Inr ua by blast+
  have income: "0 \<le> current_price a * req_amount td"
    using price[OF asset] pos by simp
  show ?thesis
  proof (cases "get_by_user_and_asset s user_id (a_id a)")
    case (Inl e)
    then show ?thesis using inv Inr ua by (simp add: execute_trade_def open_session_def)
  next
    case h: (Inr h)
    show ?thesis
    proof (cases "trade_type = ''BUY''")
      case True
      obtain raised s1 where
        r: "process_buy numeric s u a h (req_amount td) (current_price a * req_amount td) =
              (raised, s1)"
        by force
      show ?thesis
      proof (cases raised)
        case None
        then have "nonneg_invariant s1"
          using r process_buy_invariant[OF nn inv user pos] by simp
        then show ?thesis
          using Inr ua h True r None
          by (simp add: execute_trade_def open_session_def commit_def transaction_create_def
              nonneg_invariant_def Let_def)
      next
        case (Some e)
        then show ?thesis
          using Inr ua h True r inv
          by (simp add: execute_trade_def open_session_def)
      qed
    next
      case notbuy: False
      show ?thesis
      proof (cases "trade_type = ''SELL''")
        case True
        obtain raised s1 where
          r: "process_sell numeric s u a h (req_amount td) (current_price a * req_amount td) =
                (raised, s1)"
          by force
        show ?thesis
        proof (cases raised)
          case None
          then have "nonneg_invariant s1"
            using r process_sell_invariant[OF nn inv user income h] by simp
          then show ?thesis
            using Inr ua h True r None
            by (simp add: execute_trade_def open_session_def commit_def transaction_create_def
                nonneg_invariant_def Let_def)
        next
          case (Some e)
          then show ?thesis
            using Inr ua h True r inv
            by (simp add: execute_trade_def open_session_def)
        qed
      next
        case False
        then show ?thesis
          using Inr ua h notbuy inv
          by (simp add: execute_trade_def open_session_def)
      qed
    qed
  qed
qed

text \<open>
  What \<open>reset_account\<close> computes for an existing user.
\<close>

lemma reset_account_run:
  assumes user: "user_get_by_id s user_id = Some u"
  shows "reset_account to_float (open_session s) user_id =
           (Inr \<lparr>deleted_portfolio_items = length (filter (\<lambda>p. p_user_id p = user_id) (portfolios s)),
                 deleted_transactions = length (filter (\<lambda>t. t_user_id t = user_id) (transactions s)),
                 new_balance = to_float INITIAL_BALANCE\<rparr>,
            \<lparr>committed = s\<lparr>users := update_first (\<lambda>x. u_id x = user_id)
                                      (\<lambda>x. x\<lparr>balance := INITIAL_BALANCE\<rparr>) (users s),
                            portfolios := filter (\<lambda>p. p_user_id p \<noteq> user_id) (portfolios s),
                            transactions := filter (\<lambda>t. t_user_id t \<noteq> user_id) (transactions s)\<rparr>,
             pending = s\<lparr>users := update_first (\<lambda>x. u_id x = user_id)
                                      (\<lambda>x. x\<lparr>balance := INITIAL_BALANCE\<rparr>) (users s),
                            portfolios := filter (\<lambda>p. p_user_id p \<noteq> user_id) (portfolios s),
                            transactions := filter (\<lambda>t. t_user_id t \<noteq> user_id) (transactions s)\<rparr>,
             commits = 1\<rparr>)"
proof -
  have uid: "u_id u = user_id"
    using user find_Some_holds[of "\<lambda>x. u_id x = user_id" "users s" u]
    by (simp add: user_get_by_id_def)
  show ?thesis
    using user uid
    by (simp add: reset_account_def open_session_def delete_user_portfolio_def
        delete_user_transactions_def set_balance_def commit_def Let_def)
qed

lemma reset_account_invariant:
  assumes inv: "nonneg_invariant s"
  shows "nonneg_invariant (committed (snd (reset_account to_float (open_session s) user_id)))"
proof (cases "user_get_by_id s user_id")
  case None
  then show ?thesis using inv by (simp add: reset_account_def open_session_def)
next
  case (Some u)
  have "list_all (\<lambda>u. 0 \<le> balance u)
          (update_first (\<lambda>x. u_id x = user_id) (\<lambda>x. x\<lparr>balance := INITIAL_BALANCE\<rparr>) (users s))"
    using inv Some
    by (intro list_all_update_first[where u = u])
      (simp_all add: nonneg_invariant_def INITIAL_BALANCE_def user_get_by_id_def)
  then show ?thesis
    using inv reset_account_run[OF Some, of to_float]
    by (simp add: nonneg_invariant_def list_all_iff)
qed


text \<open>
  C4, as stated, fails: the balances and quantities of \<open>store_neg\<close> are non-negative and
  the amount is positive, yet a SELL of an asset whose stored price is negative commits a
  negative balance. Nothing in the code checks the sign of a price.
\<close>

theorem sell_at_negative_price_breaks_invariant:
  "nonneg_invariant store_neg \<and> 0 < req_amount buy1
   \<and> \<not> nonneg_invariant
         (committed (snd (execute_trade round_to_scale (open_session store_neg) 1 buy1 ''SELL'' 7)))"
  by (simp add: nonneg_invariant_def store_neg_def alice_def btc_def holding5_def buy1_def
      execute_trade_def open_session_def get_valid_resources_def user_get_by_id_def
      get_by_ticker_def get_by_user_and_asset_def process_sell_def update_balance_def
      update_quantity_def transaction_create_def commit_def round_to_scale_def
      floor_numeral_divide Let_def)

text \<open>
  C4, amended. Let the store's coercion store no non-negative value as a negative one (as
  rounding to a scale does). From a store in which every balance and every quantity is
  non-negative, with a positive amount and a traded asset whose current price is
  non-negative, the store committed by \<open>execute_trade\<close> (BUY or SELL, whether it succeeds
  or raises) and by \<open>reset_account\<close> again has every balance and every quantity
  non-negative.
\<close>

theorem trade_engine_preserves_nonneg:
  assumes "\<forall>sc x. 0 \<le> x \<longrightarrow> 0 \<le> numeric sc x"
    and "nonneg_invariant s"
    and "0 < req_amount td"
    and "\<forall>a. get_by_ticker s (asset_ticker td) = Inr (Some a) \<longrightarrow> 0 \<le> current_price a"
  shows "nonneg_invariant
           (committed (snd (execute_trade numeric (open_session s) user_id td ''BUY'' now)))
         \<and> nonneg_invariant
             (committed (snd (execute_trade numeric (open_session s) user_id td ''SELL'' now)))
         \<and> nonneg_invariant
             (committed (snd (reset_account to_float (open_session s) user_id)))"
proof -
  have nn: "\<And>sc x. 0 \<le> x \<Longrightarrow> 0 \<le> numeric sc x"
    using assms(1) by simp
  have price: "\<And>a. get_by_ticker s (asset_ticker td) = Inr (Some a) \<Longrightarrow> 0 \<le> current_price a"
    using assms(4) by simp
  show ?thesis
    using execute_trade_invariant[OF nn assms(2) assms(3) price]
      reset_account_invariant[OF assms(2)]
    by simp
qed

text \<open>
  A holding of 5 at price 100 and a balance of 10000, trading 1, with rounding to the
  nearest value of the scale.
\<close>

theorem trade_engine_preserves_nonneg_witness:
  "nonneg_invariant (store0\<lparr>portfolios := [holding5]\<rparr>)
   \<and> 0 < req_amount buy1
   \<and> get_by_ticker (store0\<lparr>portfolios := [holding5]\<rparr>) (asset_ticker buy1) = Inr (Some btc)
   \<and> 0 \<le> current_price btc
   \<and> nonneg_invariant
       (committed (snd (execute_trade round_to_scale
                          (open_session (store0\<lparr>portfolios := [holding5]\<rparr>)) 1 buy1 ''BUY'' 7)))
   \<and> nonneg_invariant
       (committed (snd (execute_trade round_to_scale
                          (open_session (store0\<lparr>portfolios := [holding5]\<rparr>)) 1 buy1 ''SELL'' 7)))
   \<and> nonneg_invariant
       (committed (snd (reset_account id (open_session (store0\<lparr>portfolios := [holding5]\<rparr>)) 1)))"
proof -
  let ?s = "store0\<lparr>portfolios := [holding5]\<rparr>"
  have h0: "\<forall>sc x. 0 \<le> x \<longrightarrow> 0 \<le> round_to_scale sc x"
    by (simp add: round_to_scale_nonneg)
  have h1: "nonneg_invariant ?s"
    by (simp add: nonneg_invariant_def store0_def alice_def holding5_def)
  have h2: "0 < req_amount buy1" by (simp add: buy1_def)
  have a: "get_by_ticker ?s (asset_ticker buy1) = Inr (Some btc)"
    by (simp add: get_by_ticker_def store0_def btc_def buy1_def)
  have p: "0 \<le> current_price btc" by (simp add: btc_def)
  have h3: "\<forall>a. get_by_ticker ?s (asset_ticker buy1) = Inr (Some a) \<longrightarrow> 0 \<le> current_price a"
    using a p by simp
  show ?thesis
    using h1 h2 a p trade_engine_preserves_nonneg[OF h0 h1 h2 h3, of 1 7 id]
    by simp
qed

lemma update_first_idem:
  "(\<And>x. P x \<Longrightarrow> P (f x) \<and> f (f x) = f x) \<Longrightarrow>
   update_first P f (update_first P f xs) = update_first P f xs"
  by (induction xs) auto

text \<open>
  C7. For an existing user, \<open>reset_account\<close> reports the numbers of that user's portfolio
  and ledger rows, commits a store \<open>s1\<close> without any of them and with the balance at
  \<open>INITIAL_BALANCE\<close> = 100000, and leaves everything else as it was. A second call, on
  \<open>s1\<close>, reports 0 and 0, the same new balance, and commits \<open>s1\<close> again.
\<close>

theorem reset_account_idempotent:
  fixes s1 :: store
  assumes user: "user_get_by_id s user_id = Some u"
  defines "s1 \<equiv> s\<lparr>users := update_first (\<lambda>x. u_id x = user_id)
                              (\<lambda>x. x\<lparr>balance := INITIAL_BALANCE\<rparr>) (users s),
                   portfolios := filter (\<lambda>p. p_user_id p \<noteq> user_id) (portfolios s),
                   transactions := filter (\<lambda>t. t_user_id t \<noteq> user_id) (transactions s)\<rparr>"
  shows "reset_account to_float (open_session s) user_id =
           (Inr \<lparr>deleted_portfolio_items = length (filter (\<lambda>p. p_user_id p = user_id) (portfolios s)),
                 deleted_transactions = length (filter (\<lambda>t. t_user_id t = user_id) (transactions s)),
                 new_balance = to_float INITIAL_BALANCE\<rparr>,
            \<lparr>committed = s1, pending = s1, commits = 1\<rparr>)
         \<and> filter (\<lambda>p. p_user_id p = user_id) (portfolios s1) = []
         \<and> filter (\<lambda>t. t_user_id t = user_id) (transactions s1) = []
         \<and> user_get_by_id s1 user_id = Some (u\<lparr>balance := 100000\<rparr>)
         \<and> reset_account to_float (open_session s1) user_id =
             (Inr \<lparr>deleted_portfolio_items = 0, deleted_transactions = 0,
                   new_balance = to_float INITIAL_BALANCE\<rparr>,
              \<lparr>committed = s1, pending = s1, commits = 1\<rparr>)"
proof -
  have uid: "u_id u = user_id"
    using user find_Some_holds[of "\<lambda>x. u_id x = user_id" "users s" u]
    by (simp add: user_get_by_id_def)
  have first: "reset_account to_float (open_session s) user_id =
           (Inr \<lparr>deleted_portfolio_items = length (filter (\<lambda>p. p_user_id p = user_id) (portfolios s)),
                 deleted_transactions = length (filter (\<lambda>t. t_user_id t = user_id) (transactions s)),
                 new_balance = to_float INITIAL_BALANCE\<rparr>,
            \<lparr>committed = s1, pending = s1, commits = 1\<rparr>)"
    using reset_account_run[OF user, of to_float] by (simp add: s1_def)
  have nop: "filter (\<lambda>p. p_user_id p = user_id) (portfolios s1) = []"
    and not: "filter (\<lambda>t. t_user_id t = user_id) (transactions s1) = []"
    by (simp_all add: s1_def filter_empty_conv)
  have user1: "user_get_by_id s1 user_id = Some (u\<lparr>balance := 100000\<rparr>)"
    using user uid by (simp add: user_get_by_id_def s1_def find_update_first INITIAL_BALANCE_def)
  have idem: "update_first (\<lambda>x. u_id x = user_id) (\<lambda>x. x\<lparr>balance := INITIAL_BALANCE\<rparr>) (users s1)
              = users s1"
    by (simp add: s1_def update_first_idem)
  have "s1\<lparr>users := users s1, portfolios := portfolios s1, transactions := transactions s1\<rparr> = s1"
    by simp
  moreover have "filter (\<lambda>p. p_user_id p \<noteq> user_id) (portfolios s1) = portfolios s1"
    and "filter (\<lambda>t. t_user_id t \<noteq> user_id) (transactions s1) = transactions s1"
    by (simp_all add: s1_def)
  ultimately have second: "reset_account to_float (open_session s1) user_id =
             (Inr \<lparr>deleted_portfolio_items = 0, deleted_transactions = 0,
                   new_balance = to_float INITIAL_BALANCE\<rparr>,
              \<lparr>committed = s1, pending = s1, commits = 1\<rparr>)"
    using reset_account_run[OF user1, of to_float] nop not idem by simp
  show ?thesis using first nop not user1 second by simp
qed

text \<open>
  A user with one holding and one ledger row, reset twice.
\<close>

theorem reset_account_witness:
  "user_get_by_id store_traded 1 = Some (alice\<lparr>balance := 9500\<rparr>)
   \<and> reset_account id (open_session store_traded) 1 =
       (Inr \<lparr>deleted_portfolio_items = 1, deleted_transactions = 1, new_balance = 100000\<rparr>,
        \<lparr>committed = store0\<lparr>users := [alice\<lparr>balance := 100000\<rparr>]\<rparr>,
         pending = store0\<lparr>users := [alice\<lparr>balance := 100000\<rparr>]\<rparr>, commits = 1\<rparr>)
   \<and> reset_account id (open_session (store0\<lparr>users := [alice\<lparr>balance := 100000\<rparr>]\<rparr>)) 1 =
       (Inr \<lparr>deleted_portfolio_items = 0, deleted_transactions = 0, new_balance = 100000\<rparr>,
        \<lparr>committed = store0\<lparr>users := [alice\<lparr>balance := 100000\<rparr>]\<rparr>,
         pending = store0\<lparr>users := [alice\<lparr>balance := 100000\<rparr>]\<rparr>, commits = 1\<rparr>)"
proof -
  have h: "user_get_by_id store_traded 1 = Some (alice\<lparr>balance := 9500\<rparr>)"
    by (simp add: user_get_by_id_def store_traded_def alice_def)
  show ?thesis
    using h reset_account_idempotent[OF h, of id]
    by (simp add: store_traded_def store0_def alice_def holding5_def INITIAL_BALANCE_def)
qed

section \<open>Properties of the wallet\<close>

text \<open>
  On positive amounts the running quantity never becomes negative, the guard of the BUY
  branch always holds, and the loop body \<open>replay_tx\<close> is the average-cost rule.
\<close>

lemma replay_tx_quantity_nonneg:
  "0 \<le> st_quantity st \<Longrightarrow> 0 < amount tx \<Longrightarrow> 0 \<le> st_quantity (replay_tx st tx)"
  by (simp add: replay_tx_def Let_def)

lemma replay_tx_average_cost_step:
  "0 \<le> st_quantity st \<Longrightarrow> 0 < amount tx \<Longrightarrow> replay_tx st tx = average_cost_step st tx"
  by (simp add: replay_tx_def average_cost_step_def Let_def)

lemma foldl_replay_tx_average_cost_step:
  "0 \<le> st_quantity st \<Longrightarrow> \<forall>t\<in>set txs. 0 < amount t \<Longrightarrow>
   foldl replay_tx st txs = foldl average_cost_step st txs"
proof (induction txs arbitrary: st)
  case Nil
  then show ?case by simp
next
  case (Cons tx txs)
  have step: "replay_tx st tx = average_cost_step st tx"
    using Cons.prems by (simp add: replay_tx_average_cost_step)
  have "0 \<le> st_quantity (replay_tx st tx)"
    using Cons.prems by (simp add: replay_tx_quantity_nonneg)
  then have "foldl replay_tx (replay_tx st tx) txs = foldl average_cost_step (replay_tx st tx) txs"
    using Cons.IH Cons.prems by simp
  then show ?case using step by simp
qed

lemma replay_ledger_returns:
  "\<forall>t\<in>set L. asset_get_by_id s (t_asset_id t) \<noteq> None \<Longrightarrow> \<exists>m. replay_ledger s L m0 = Inr m"
  by (induction L arbitrary: m0) (auto simp: Let_def)

text \<open>
  The replay loop folds the loop body over the rows of each ticker, in the order of the list.
\<close>

lemma replay_ledger_fold:
  "replay_ledger s L m0 = Inr m \<Longrightarrow>
   m k = (if filter (\<lambda>t. ticker_of s t = Some k) L = [] then m0 k
          else Some (foldl replay_tx (case m0 k of None \<Rightarrow> zero_stats | Some st \<Rightarrow> st)
                       (filter (\<lambda>t. ticker_of s t = Some k) L)))"
proof (induction L arbitrary: m0)
  case Nil
  then show ?case by simp
next
  case (Cons tx L)
  obtain a where a: "asset_get_by_id s (t_asset_id tx) = Some a"
    using Cons.prems by (auto split: option.splits)
  let ?st = "case m0 (ticker a) of None \<Rightarrow> zero_stats | Some st \<Rightarrow> st"
  let ?m1 = "m0(ticker a \<mapsto> replay_tx ?st tx)"
  have run: "replay_ledger s L ?m1 = Inr m"
    using Cons.prems a by (simp add: Let_def)
  have tk: "ticker_of s tx = Some (ticker a)"
    using a by (simp add: ticker_of_def)
  show ?case
    using Cons.IH[OF run] tk by (cases "k = ticker a") auto
qed

text \<open>
  The loop over \<^verbatim>\<open>user.portfolio\<close> adds up quantity times current price.
\<close>

lemma foldl_wallet_row_total:
  "snd (foldl (wallet_row to_float s m) acc ps) =
   snd acc + (\<Sum>p\<leftarrow>ps. case asset_get_by_id s (p_asset_id p) of
                            None \<Rightarrow> 0 | Some a \<Rightarrow> quantity p * current_price a)"
  by (induction ps arbitrary: acc) (auto simp: wallet_row_def Let_def split: option.splits)

lemma get_wallet_run:
  assumes "get_by_id_with_portfolio s user_id = Inr (Some u)"
    and "replay_ledger s (sort_key timestamp (get_by_user s user_id)) Map.empty = Inr m"
  shows "get_wallet to_float s user_id =
           Inr \<lparr>w_username = username u, w_balance = to_float (balance u),
                w_assets = fst (foldl (wallet_row to_float s m) ([], 0) (user_portfolio s u)),
                total_value = to_float (balance u
                   + snd (foldl (wallet_row to_float s m) ([], 0) (user_portfolio s u)))\<rparr>"
  using assms by (simp add: get_wallet_def split: prod.splits)

text \<open>
  C5, as stated, fails: a SELL does not always leave the average price unchanged. After
  BUY 1 at 100 the wallet shows an average buy price of 100; after the SELL of that one unit
  it shows 0, since the code resets \<^verbatim>\<open>avg_price\<close> together with quantity and total cost.
\<close>

theorem sell_out_resets_average_price:
  "(case get_wallet id (store_sold_out\<lparr>transactions := [tx_buy 1 100 1]\<rparr>) 1 of
      Inl e \<Rightarrow> [] | Inr w \<Rightarrow> map average_buy_price (w_assets w)) = [100]
   \<and> (case get_wallet id store_sold_out 1 of
      Inl e \<Rightarrow> [] | Inr w \<Rightarrow> map average_buy_price (w_assets w)) = [0]"
  by (simp add: get_wallet_def get_by_id_with_portfolio_def get_by_user_def user_portfolio_def
      store_sold_out_def store0_def alice_def btc_def holding0_def tx_buy_def tx_sell_def
      asset_get_by_id_def replay_tx_def zero_stats_def wallet_row_def Let_def)

text \<open>
  C5, amended. \<open>get_wallet\<close> replays the user's ledger rows in chronological order
  (\<open>L\<close>: exactly the user's rows, sorted by timestamp). When the amounts are positive and
  every row has its asset, the replay returns, and for each ticker the entry of
  \<^verbatim>\<open>asset_stats\<close> is the average-cost rule \<open>average_cost_step\<close> folded from zeros over
  that ticker's rows of \<open>L\<close>: a BUY adds to quantity and total cost and sets the average
  to their quotient, a SELL removes cost at the running average and keeps the average while
  a positive quantity remains, and a SELL that exhausts the quantity resets quantity, total
  cost and average to 0. The wallet reads its average buy prices from these entries.
\<close>

theorem wallet_average_cost_replay:
  fixes s :: store and user_id :: int and L :: "transaction list"
  defines "L \<equiv> sort_key timestamp (get_by_user s user_id)"
  assumes fk: "\<forall>t\<in>set L. asset_get_by_id s (t_asset_id t) \<noteq> None"
    and pos: "\<forall>t\<in>set L. 0 < amount t"
  shows "sorted (map timestamp L)
         \<and> set L = {t \<in> set (transactions s). t_user_id t = user_id}
         \<and> (\<exists>m. replay_ledger s L Map.empty = Inr m
                \<and> (\<forall>k. m k =
                      (if filter (\<lambda>t. ticker_of s t = Some k) L = [] then None
                       else Some (foldl average_cost_step zero_stats
                                    (filter (\<lambda>t. ticker_of s t = Some k) L))))
                \<and> (\<forall>u. get_by_id_with_portfolio s user_id = Inr (Some u) \<longrightarrow>
                      (\<exists>w. get_wallet to_float s user_id = Inr w
                         \<and> w_assets w =
                             fst (foldl (wallet_row to_float s m) ([], 0) (user_portfolio s u)))))"
proof -
  have srt: "sorted (map timestamp L)"
    by (simp add: L_def)
  have st: "set L = {t \<in> set (transactions s). t_user_id t = user_id}"
    by (auto simp: L_def get_by_user_def)
  obtain m where m: "replay_ledger s L Map.empty = Inr m"
    using replay_ledger_returns[OF fk] by blast
  have stats: "m k =
                 (if filter (\<lambda>t. ticker_of s t = Some k) L = [] then None
                  else Some (foldl average_cost_step zero_stats
                               (filter (\<lambda>t. ticker_of s t = Some k) L)))" for k
  proof -
    have "\<forall>t\<in>set (filter (\<lambda>t. ticker_of s t = Some k) L). 0 < amount t"
      using pos by simp
    then have "foldl replay_tx zero_stats (filter (\<lambda>t. ticker_of s t = Some k) L) =
               foldl average_cost_step zero_stats (filter (\<lambda>t. ticker_of s t = Some k) L)"
      by (intro foldl_replay_tx_average_cost_step) (simp_all add: zero_stats_def)
    then show ?thesis
      using replay_ledger_fold[OF m, of k] by simp
  qed
  have wal: "\<exists>w. get_wallet to_float s user_id = Inr w
                \<and> w_assets w = fst (foldl (wallet_row to_float s m) ([], 0) (user_portfolio s u))"
    if "get_by_id_with_portfolio s user_id = Inr (Some u)" for u
    using get_wallet_run[OF that, of m to_float] m by (simp add: L_def)
  show ?thesis using srt st m stats wal by blast
qed

text \<open>
  The example of the specification, stored out of order: BUY 2 at 100, BUY 1 at 200, then
  SELL 1 (at a trade price of 500, which plays no part).
\<close>

theorem wallet_average_cost_witness:
  "list_all (\<lambda>t. asset_get_by_id store_avg (t_asset_id t) \<noteq> None)
     (sort_key timestamp (get_by_user store_avg 1))
   \<and> list_all (\<lambda>t. 0 < amount t) (sort_key timestamp (get_by_user store_avg 1))
   \<and> sort_key timestamp (get_by_user store_avg 1) = [tx_buy 2 100 1, tx_buy 1 200 2, tx_sell 1 500 3]
   \<and> foldl average_cost_step zero_stats [tx_buy 2 100 1, tx_buy 1 200 2] =
       \<lparr>total_cost = 400, st_quantity = 3, avg_price = 400 / 3\<rparr>
   \<and> (case replay_ledger store_avg (sort_key timestamp (get_by_user store_avg 1)) Map.empty of
         Inl e \<Rightarrow> None | Inr m \<Rightarrow> m ''BTC'') =
       Some \<lparr>total_cost = 400 - 1 * (400 / 3), st_quantity = 2, avg_price = 400 / 3\<rparr>"
proof -
  have L: "sort_key timestamp (get_by_user store_avg 1) =
             [tx_buy 2 100 1, tx_buy 1 200 2, tx_sell 1 500 3]"
    by (simp add: get_by_user_def store_avg_def store0_def tx_buy_def tx_sell_def)
  have tk: "ticker_of store_avg t = Some ''BTC''"
    if "t \<in> set [tx_buy 2 100 1, tx_buy 1 200 2, tx_sell 1 500 3]" for t
    using that
    by (auto simp: ticker_of_def asset_get_by_id_def store_avg_def store0_def btc_def
        tx_buy_def tx_sell_def)
  have fk: "\<forall>t\<in>set (sort_key timestamp (get_by_user store_avg 1)).
              asset_get_by_id store_avg (t_asset_id t) \<noteq> None"
    unfolding L
    by (simp add: asset_get_by_id_def store_avg_def store0_def btc_def tx_buy_def tx_sell_def)
  have pos: "\<forall>t\<in>set (sort_key timestamp (get_by_user store_avg 1)). 0 < amount t"
    unfolding L by (simp add: tx_buy_def tx_sell_def)
  have two: "foldl average_cost_step zero_stats [tx_buy 2 100 1, tx_buy 1 200 2] =
       \<lparr>total_cost = 400, st_quantity = 3, avg_price = 400 / 3\<rparr>"
    by (simp add: average_cost_step_def zero_stats_def tx_buy_def)
  have three: "foldl average_cost_step zero_stats [tx_buy 2 100 1, tx_buy 1 200 2, tx_sell 1 500 3] =
       \<lparr>total_cost = 400 - 1 * (400 / 3), st_quantity = 2, avg_price = 400 / 3\<rparr>"
    by (simp add: average_cost_step_def zero_stats_def tx_buy_def tx_sell_def)
  have flt: "filter (\<lambda>t. ticker_of store_avg t = Some ''BTC'')
               [tx_buy 2 100 1, tx_buy 1 200 2, tx_sell 1 500 3] =
             [tx_buy 2 100 1, tx_buy 1 200 2, tx_sell 1 500 3]"
    using tk by simp
  obtain m where m: "replay_ledger store_avg (sort_key timestamp (get_by_user store_avg 1)) Map.empty = Inr m"
    and mk: "\<forall>k. m k =
               (if filter (\<lambda>t. ticker_of store_avg t = Some k)
                     (sort_key timestamp (get_by_user store_avg 1)) = [] then None
                else Some (foldl average_cost_step zero_stats
                             (filter (\<lambda>t. ticker_of store_avg t = Some k)
                                (sort_key timestamp (get_by_user store_avg 1)))))"
    using wallet_average_cost_replay[OF fk pos, of id] by blast
  have "m ''BTC'' = Some \<lparr>total_cost = 400 - 1 * (400 / 3), st_quantity = 2, avg_price = 400 / 3\<rparr>"
    using mk[rule_format, of "''BTC''"] unfolding L flt three by simp
  then show ?thesis
    using fk pos L two m by (simp add: list_all_iff)
qed

lemma get_wallet_sum:
  assumes user: "get_by_id_with_portfolio s user_id = Inr (Some u)"
    and fk: "\<forall>t\<in>set (transactions s). t_user_id t = user_id \<longrightarrow>
                asset_get_by_id s (t_asset_id t) \<noteq> None"
  shows "\<exists>w. get_wallet to_float s user_id = Inr w
           \<and> total_value w =
               to_float (balance u
                 + (\<Sum>p\<leftarrow>user_portfolio s u.
                      case asset_get_by_id s (p_asset_id p) of
                        None \<Rightarrow> 0 | Some a \<Rightarrow> quantity p * current_price a))"
proof -
  have "\<forall>t\<in>set (sort_key timestamp (get_by_user s user_id)).
          asset_get_by_id s (t_asset_id t) \<noteq> None"
    using fk by (simp add: get_by_user_def)
  then obtain m where
    m: "replay_ledger s (sort_key timestamp (get_by_user s user_id)) Map.empty = Inr m"
    using replay_ledger_returns by blast
  show ?thesis
    using get_wallet_run[OF user m, of to_float]
    by (simp add: foldl_wallet_row_total)
qed

text \<open>
  C6. Let the user exist (\<open>u\<close> is the one row of that id) and let every ledger row of
  the user reference an existing asset (the foreign key of the ledger). Then \<open>get_wallet\<close>
  returns a wallet whose total value is the conversion to float of: the balance of \<open>u\<close>,
  plus the sum, over the portfolio rows of that user id and no others, of the row's quantity
  times the current price of the asset row whose id is the row's asset id (a row without
  asset contributes nothing). The quantities are those of the portfolio rows and the average
  cost does not enter: with any other ledger in the store the total value is the same.
\<close>

theorem wallet_total_value:
  assumes user: "filter (\<lambda>x. u_id x = user_id) (users s) = [u]"
    and fk: "\<forall>t\<in>set (transactions s). t_user_id t = user_id \<longrightarrow>
                t_asset_id t \<in> a_id ` set (assets s)"
  shows "\<exists>w. get_wallet to_float s user_id = Inr w
           \<and> total_value w =
               to_float (balance u
                 + (\<Sum>p\<leftarrow>filter (\<lambda>p. p_user_id p = user_id) (portfolios s).
                      case find (\<lambda>a. a_id a = p_asset_id p) (assets s) of
                        None \<Rightarrow> 0 | Some a \<Rightarrow> quantity p * current_price a))
           \<and> (\<forall>L. (\<forall>t\<in>set L. t_user_id t = user_id \<longrightarrow>
                         t_asset_id t \<in> a_id ` set (assets s)) \<longrightarrow>
                  (\<exists>w'. get_wallet to_float (s\<lparr>transactions := L\<rparr>) user_id = Inr w'
                      \<and> total_value w' = total_value w))"
proof -
  have uid: "u_id u = user_id"
    using user by (rule filter_single_holds)
  have found: "get_by_id_with_portfolio s user_id = Inr (Some u)"
    using user by (simp add: get_by_id_with_portfolio_def)
  have ref: "asset_get_by_id s' k \<noteq> None" if "k \<in> a_id ` set (assets s')" for s' k
    using that by (auto simp: asset_get_by_id_def find_None_iff)
  have fk': "\<forall>t\<in>set (transactions s). t_user_id t = user_id \<longrightarrow>
                asset_get_by_id s (t_asset_id t) \<noteq> None"
    using fk ref by blast
  obtain w where w: "get_wallet to_float s user_id = Inr w"
    and tv: "total_value w =
               to_float (balance u
                 + (\<Sum>p\<leftarrow>filter (\<lambda>p. p_user_id p = user_id) (portfolios s).
                      case find (\<lambda>a. a_id a = p_asset_id p) (assets s) of
                        None \<Rightarrow> 0 | Some a \<Rightarrow> quantity p * current_price a))"
    using get_wallet_sum[OF found fk', of to_float]
    by (auto simp: user_portfolio_def asset_get_by_id_def uid)
  have other: "\<exists>w'. get_wallet to_float (s\<lparr>transactions := L\<rparr>) user_id = Inr w'
                  \<and> total_value w' = total_value w"
    if L: "\<forall>t\<in>set L. t_user_id t = user_id \<longrightarrow> t_asset_id t \<in> a_id ` set (assets s)"
    for L
  proof -
    let ?s = "s\<lparr>transactions := L\<rparr>"
    have found': "get_by_id_with_portfolio ?s user_id = Inr (Some u)"
      using found by (simp add: get_by_id_with_portfolio_def)
    have "\<forall>t\<in>set L. t_user_id t = user_id \<longrightarrow> asset_get_by_id ?s (t_asset_id t) \<noteq> None"
      using L ref[of _ ?s] by simp
    then have fk'': "\<forall>t\<in>set (transactions ?s). t_user_id t = user_id \<longrightarrow>
                 asset_get_by_id ?s (t_asset_id t) \<noteq> None"
      by simp
    show ?thesis
      using get_wallet_sum[OF found' fk'', of to_float] tv
      by (auto simp: asset_get_by_id_def user_portfolio_def uid)
  qed
  show ?thesis using w tv other by blast
qed

text \<open>
  Two users and two assets: alice (balance 10000) holds 2 at price 100 and 3 at price 3000,
  bob (balance 500) holds 7 and 1 of the same assets; the ledger records one purchase each.
  The wallet of alice is worth 10000 + 2 * 100 + 3 * 3000 and that of bob
  500 + 7 * 100 + 1 * 3000, with this ledger and with an empty one.
\<close>

theorem wallet_total_value_witness:
  "filter (\<lambda>x. u_id x = 1) (users store_two_users) = [alice]
   \<and> filter (\<lambda>x. u_id x = 2) (users store_two_users) = [bob]
   \<and> list_all (\<lambda>t. t_asset_id t \<in> a_id ` set (assets store_two_users))
         (transactions store_two_users)
   \<and> (case get_wallet id store_two_users 1 of Inl e \<Rightarrow> None | Inr w \<Rightarrow> Some (total_value w)) =
       Some 19200
   \<and> (case get_wallet id (store_two_users\<lparr>transactions := []\<rparr>) 1 of
         Inl e \<Rightarrow> None | Inr w \<Rightarrow> Some (total_value w)) = Some 19200
   \<and> (case get_wallet id store_two_users 2 of Inl e \<Rightarrow> None | Inr w \<Rightarrow> Some (total_value w)) =
       Some 4200"
proof -
  have u1: "filter (\<lambda>x. u_id x = 1) (users store_two_users) = [alice]"
    and u2: "filter (\<lambda>x. u_id x = 2) (users store_two_users) = [bob]"
    by (simp_all add: store_two_users_def alice_def bob_def)
  have refs: "list_all (\<lambda>t. t_asset_id t \<in> a_id ` set (assets store_two_users))
                (transactions store_two_users)"
    by (simp add: store_two_users_def btc_def eth_def tx_buy_def)
  have fk1: "\<forall>t\<in>set (transactions store_two_users). t_user_id t = 1 \<longrightarrow>
               t_asset_id t \<in> a_id ` set (assets store_two_users)"
    and fk2: "\<forall>t\<in>set (transactions store_two_users). t_user_id t = 2 \<longrightarrow>
               t_asset_id t \<in> a_id ` set (assets store_two_users)"
    using refs by (simp_all add: list_all_iff)
  have sum1: "balance alice
               + (\<Sum>p\<leftarrow>filter (\<lambda>p. p_user_id p = 1) (portfolios store_two_users).
                    case find (\<lambda>a. a_id a = p_asset_id p) (assets store_two_users) of
                      None \<Rightarrow> 0 | Some a \<Rightarrow> quantity p * current_price a) = 19200"
    by (simp add: store_two_users_def alice_def btc_def eth_def)
  have sum2: "balance bob
               + (\<Sum>p\<leftarrow>filter (\<lambda>p. p_user_id p = 2) (portfolios store_two_users).
                    case find (\<lambda>a. a_id a = p_asset_id p) (assets store_two_users) of
                      None \<Rightarrow> 0 | Some a \<Rightarrow> quantity p * current_price a) = 4200"
    by (simp add: store_two_users_def bob_def btc_def eth_def)
  obtain w where w: "get_wallet id store_two_users 1 = Inr w"
    and tv: "total_value w = 19200"
    and ind: "\<forall>L. (\<forall>t\<in>set L. t_user_id t = 1 \<longrightarrow>
                         t_asset_id t \<in> a_id ` set (assets store_two_users)) \<longrightarrow>
                  (\<exists>w'. get_wallet id (store_two_users\<lparr>transactions := L\<rparr>) 1 = Inr w'
                      \<and> total_value w' = total_value w)"
    using wallet_total_value[OF u1 fk1, of id] unfolding sum1 by auto
  obtain w' where w': "get_wallet id (store_two_users\<lparr>transactions := []\<rparr>) 1 = Inr w'"
    and tv': "total_value w' = total_value w"
    using ind[rule_format, of "[]"] by auto
  obtain v where v: "get_wallet id store_two_users 2 = Inr v"
    and tvv: "total_value v = 4200"
    using wallet_total_value[OF u2 fk2, of id] unfolding sum2 by auto
  show ?thesis using u1 u2 refs w tv w' tv' v tvv by simp
qed

section \<open>Properties of the market synchronisation\<close>

text \<open>
  The filter of \<^verbatim>\<open>_fetch_live_prices\<close> keeps the non-empty strings of uppercase letters
  and digits that have at least one letter.
\<close>

lemma lower_char_class:
  "is_lower_char c \<Longrightarrow> \<not> is_upper_char c \<and> \<not> is_digit_char c"
  by (simp add: is_lower_char_def is_upper_char_def is_digit_char_def)

lemma valid_symbol_iff:
  "s \<noteq> [] \<and> isupper s \<and> isalnum s \<longleftrightarrow>
   (\<exists>c\<in>set s. is_upper_char c) \<and> (\<forall>c\<in>set s. is_upper_char c \<or> is_digit_char c)"
  by (auto simp: isupper_def isalnum_def list_all_iff list_ex_iff dest: lower_char_class)

text \<open>
  A dictionary built from pairs with distinct keys lists the pairs as they come; with the
  tickers unique, the two maps of a sync cycle are the asset rows in table order.
\<close>

lemma update_append_fresh:
  "k \<notin> fst ` set al \<Longrightarrow> AList.update k v al = al @ [(k, v)]"
  by (induction al) auto

lemma foldl_update_distinct:
  "distinct (map fst (d @ kvs)) \<Longrightarrow>
   foldl (\<lambda>d kv. AList.update (fst kv) (snd kv) d) d kvs = d @ kvs"
proof (induction kvs arbitrary: d)
  case Nil
  then show ?case by simp
next
  case (Cons kv kvs)
  have fresh: "fst kv \<notin> fst ` set d" using Cons.prems by auto
  have "distinct (map fst ((d @ [kv]) @ kvs))" using Cons.prems by simp
  then have "foldl (\<lambda>d kv. AList.update (fst kv) (snd kv) d) (d @ [kv]) kvs = (d @ [kv]) @ kvs"
    by (rule Cons.IH)
  then show ?case using fresh by (simp add: update_append_fresh)
qed

lemma dict_of_distinct: "distinct (map fst kvs) \<Longrightarrow> dict_of kvs = kvs"
  using foldl_update_distinct[of "[]" kvs] by (simp add: dict_of_def)

lemma foldl_update_not_Nil:
  "foldl (\<lambda>d kv. AList.update (fst kv) (snd kv) d) d kvs = [] \<longleftrightarrow> d = [] \<and> kvs = []"
proof (induction kvs arbitrary: d)
  case Nil
  then show ?case by simp
next
  case (Cons kv kvs)
  have "AList.update (fst kv) (snd kv) d \<noteq> []" by (cases d) auto
  then show ?case using Cons.IH by simp
qed

lemma dict_of_Nil_iff: "dict_of kvs = [] \<longleftrightarrow> kvs = []"
  by (simp add: dict_of_def foldl_update_not_Nil)

lemma ticker_map_distinct:
  "distinct (map ticker (assets s)) \<Longrightarrow>
   get_ticker_to_binance_map s = map (\<lambda>a. (ticker a, binance_symbol a)) (filter is_active (assets s))"
  by (simp add: get_ticker_to_binance_map_def get_all_active_def dict_of_distinct comp_def
      distinct_map_filter)

lemma id_map_distinct:
  "distinct (map ticker (assets s)) \<Longrightarrow>
   get_ticker_to_id_map s = map (\<lambda>a. (ticker a, a_id a)) (assets s)"
  by (simp add: get_ticker_to_id_map_def dict_of_distinct comp_def)

lemma map_of_distinct_key:
  "distinct (map f xs) \<Longrightarrow> x \<in> set xs \<Longrightarrow> map_of (map (\<lambda>a. (f a, g a)) xs) (f x) = Some (g x)"
  by (induction xs) (auto simp: rev_image_eqI)

text \<open>
  C8. The active-asset map is empty exactly when no asset is active, and the symbols sent to
  the feed are the symbols of the map that are non-empty, uppercase and alphanumeric. With an
  empty map or no such symbol, the cycle makes no feed call. When the one feed call raises,
  the exception is absorbed (so it is when the feed answers with no price at all). In all these
  cases the cycle leaves its session as opened: the committed and the pending rows are the
  store as it was, so no current price has changed and no history row was appended; no commit
  was made; and nothing was handed to \<open>broadcast\<close>.
\<close>

theorem sync_cycle_without_prices:
  fixes s :: store and to_decimal :: "'f \<Rightarrow> decimal" and now :: datetime
    and ticker_map :: "(string \<times> string) list" and symbols :: "string list"
  defines "ticker_map \<equiv> get_ticker_to_binance_map s"
    and "symbols \<equiv> filter (\<lambda>x. x \<noteq> [] \<and> isupper x \<and> isalnum x) (map snd ticker_map)"
  shows "(ticker_map = [] \<longleftrightarrow> filter is_active (assets s) = [])
         \<and> (\<forall>x. x \<in> set symbols \<longleftrightarrow>
                x \<in> snd ` set ticker_map \<and> (\<exists>c\<in>set x. is_upper_char c)
                \<and> (\<forall>c\<in>set x. is_upper_char c \<or> is_digit_char c))
         \<and> (ticker_map = [] \<or> symbols = [] \<longrightarrow>
               update_prices to_decimal feed now s =
                 \<lparr>cycle_session = open_session s, events = []\<rparr>)
         \<and> (symbols \<noteq> [] \<and> (feed symbols = None \<or> feed symbols = Some []) \<longrightarrow>
               update_prices to_decimal feed now s =
                 \<lparr>cycle_session = open_session s, events = [FeedCall symbols]\<rparr>)
         \<and> open_session s = \<lparr>committed = s, pending = s, commits = 0\<rparr>"
proof -
  have empty: "ticker_map = [] \<longleftrightarrow> filter is_active (assets s) = []"
    by (simp add: ticker_map_def get_ticker_to_binance_map_def get_all_active_def dict_of_Nil_iff)
  have valid: "\<forall>x. x \<in> set symbols \<longleftrightarrow>
                x \<in> snd ` set ticker_map \<and> (\<exists>c\<in>set x. is_upper_char c)
                \<and> (\<forall>c\<in>set x. is_upper_char c \<or> is_digit_char c)"
    using valid_symbol_iff by (auto simp: symbols_def)
  have nocall: "update_prices to_decimal feed now s =
                 \<lparr>cycle_session = open_session s, events = []\<rparr>"
    if "ticker_map = [] \<or> symbols = []"
    using that
    by (auto simp: update_prices_def fetch_live_prices_def ticker_map_def symbols_def
        open_session_def Let_def)
  have failed: "update_prices to_decimal feed now s =
                 \<lparr>cycle_session = open_session s, events = [FeedCall symbols]\<rparr>"
    if "symbols \<noteq> [] \<and> (feed symbols = None \<or> feed symbols = Some [])"
  proof -
    have "ticker_map \<noteq> []" using that by (auto simp: symbols_def)
    moreover have "fetch_live_prices feed ticker_map = ([], [FeedCall symbols])"
      if "ticker_map \<noteq> []"
    proof (cases "feed symbols")
      case None
      then show ?thesis
        using \<open>ticker_map \<noteq> []\<close> \<open>symbols \<noteq> [] \<and> (feed symbols = None \<or> feed symbols = Some [])\<close>
        by (simp add: fetch_live_prices_def symbols_def[symmetric] Let_def)
    next
      case (Some prices)
      then show ?thesis
        using \<open>ticker_map \<noteq> []\<close> \<open>symbols \<noteq> [] \<and> (feed symbols = None \<or> feed symbols = Some [])\<close>
        by (simp add: fetch_live_prices_def symbols_def[symmetric] Let_def)
    qed
    ultimately show ?thesis
      by (simp add: update_prices_def ticker_map_def[symmetric] open_session_def Let_def)
  qed
  show ?thesis
    using empty valid nocall failed by (simp add: open_session_def)
qed

text \<open>
  The symbols sent to the feed in two example stores.
\<close>

lemma symbols_store0:
  "get_ticker_to_binance_map store0 = [(''BTC'', ''BTCUSDT'')]"
  "filter (\<lambda>x. x \<noteq> [] \<and> isupper x \<and> isalnum x) (map snd (get_ticker_to_binance_map store0)) =
     [''BTCUSDT'']"
  by (simp_all add: get_ticker_to_binance_map_def get_all_active_def dict_of_def store0_def
      btc_def isupper_def isalnum_def is_upper_char_def is_lower_char_def is_digit_char_def)

lemma symbols_dash:
  "get_ticker_to_binance_map (store0\<lparr>assets := [btc_dash]\<rparr>) = [(''BTC'', ''btc-usdt'')]"
  "filter (\<lambda>x. x \<noteq> [] \<and> isupper x \<and> isalnum x)
     (map snd (get_ticker_to_binance_map (store0\<lparr>assets := [btc_dash]\<rparr>))) = []"
  by (simp_all add: get_ticker_to_binance_map_def get_all_active_def dict_of_def store0_def
      btc_def btc_dash_def isupper_def isalnum_def is_upper_char_def is_lower_char_def
      is_digit_char_def)

text \<open>
  No asset at all, an asset whose feed symbol is \<open>btc-usdt\<close>, and a feed that is down.
\<close>

theorem sync_cycle_without_prices_witness:
  "get_ticker_to_binance_map (store0\<lparr>assets := []\<rparr>) = []
   \<and> update_prices id feed_three 9 (store0\<lparr>assets := []\<rparr>) =
       \<lparr>cycle_session = open_session (store0\<lparr>assets := []\<rparr>), events = []\<rparr>
   \<and> filter (\<lambda>x. x \<noteq> [] \<and> isupper x \<and> isalnum x)
        (map snd (get_ticker_to_binance_map (store0\<lparr>assets := [btc_dash]\<rparr>))) = []
   \<and> update_prices id feed_three 9 (store0\<lparr>assets := [btc_dash]\<rparr>) =
       \<lparr>cycle_session = open_session (store0\<lparr>assets := [btc_dash]\<rparr>), events = []\<rparr>
   \<and> filter (\<lambda>x. x \<noteq> [] \<and> isupper x \<and> isalnum x)
        (map snd (get_ticker_to_binance_map store0)) = [''BTCUSDT'']
   \<and> feed_down [''BTCUSDT''] = None
   \<and> update_prices id feed_down 9 store0 =
       \<lparr>cycle_session = \<lparr>committed = store0, pending = store0, commits = 0\<rparr>,
        events = [FeedCall [''BTCUSDT'']]\<rparr>"
proof -
  have e: "get_ticker_to_binance_map (store0\<lparr>assets := []\<rparr>) = []"
    by (simp add: get_ticker_to_binance_map_def get_all_active_def dict_of_def)
  have d: "feed_down [''BTCUSDT''] = None" by (simp add: feed_down_def)
  show ?thesis
    using e d symbols_dash(2) symbols_store0(2)
      sync_cycle_without_prices[where s = "store0\<lparr>assets := []\<rparr>" and to_decimal = id
        and feed = feed_three and now = 9]
      sync_cycle_without_prices[where s = "store0\<lparr>assets := [btc_dash]\<rparr>" and to_decimal = id
        and feed = feed_three and now = 9]
      sync_cycle_without_prices[where s = store0 and to_decimal = id and feed = feed_down
        and now = 9]
    by simp
qed

text \<open>
  The loop over the ticker map, one asset after the other: every asset of the list whose
  feed symbol has a fetched price gets its price written to the rows of its id, one history
  row and one update record.
\<close>

lemma update_loop_result:
  fixes to_decimal :: "'f \<Rightarrow> decimal"
  assumes "\<forall>a\<in>set as. map_of am (ticker a) = Some (a_id a)"
  shows "update_loop to_decimal now prices am (map (\<lambda>a. (ticker a, binance_symbol a)) as) st ups =
           (st\<lparr>assets :=
                  map (\<lambda>x. foldl (\<lambda>x a. if map_of prices (binance_symbol a) \<noteq> None \<and> a_id x = a_id a
                                         then x\<lparr>current_price :=
                                                  to_decimal (the (map_of prices (binance_symbol a)))\<rparr>
                                         else x) x as) (assets st),
                price_history :=
                  price_history st @
                  map (\<lambda>a. \<lparr>h_asset_id = a_id a,
                            price = to_decimal (the (map_of prices (binance_symbol a))),
                            h_timestamp = now\<rparr>)
                      (filter (\<lambda>a. map_of prices (binance_symbol a) \<noteq> None) as)\<rparr>,
            ups @ map (\<lambda>a. \<lparr>upd_ticker = ticker a,
                              upd_price = the (map_of prices (binance_symbol a))\<rparr>)
                      (filter (\<lambda>a. map_of prices (binance_symbol a) \<noteq> None) as))"
  using assms
proof (induction as arbitrary: st ups)
  case Nil
  then show ?case by simp
next
  case (Cons a as)
  have am: "map_of am (ticker a) = Some (a_id a)" using Cons.prems by simp
  have rest: "\<forall>a\<in>set as. map_of am (ticker a) = Some (a_id a)" using Cons.prems by simp
  show ?case
  proof (cases "map_of prices (binance_symbol a)")
    case None
    then show ?thesis
      using Cons.IH[OF rest, of st ups] by simp
  next
    case (Some p)
    let ?st1 = "st\<lparr>assets := map (\<lambda>x. if a_id x = a_id a then x\<lparr>current_price := to_decimal p\<rparr> else x)
                                   (assets st),
                     price_history := price_history st @
                        [\<lparr>h_asset_id = a_id a, price = to_decimal p, h_timestamp = now\<rparr>]\<rparr>"
    have step: "persist_asset_update to_decimal now st (a_id a) (ticker a) p =
                  (\<lparr>upd_ticker = ticker a, upd_price = p\<rparr>, ?st1)"
      by (simp add: persist_asset_update_def update_price_def price_history_create_def Let_def)
    show ?thesis
      using Cons.IH[OF rest, of ?st1 "ups @ [\<lparr>upd_ticker = ticker a, upd_price = p\<rparr>]"] Some am step
      by (simp add: comp_def)
  qed
qed

text \<open>
  With unique ids, the writes of the loop reach a row only through the asset of that row.
\<close>

lemma foldl_update_own_row:
  fixes to_decimal :: "'f \<Rightarrow> decimal"
  assumes "\<forall>a\<in>set as. a_id a = a_id x0 \<longrightarrow> a = x0"
    and "a_id x = a_id x0"
  shows "foldl (\<lambda>x a. if map_of prices (binance_symbol a) \<noteq> None \<and> a_id x = a_id a
                       then x\<lparr>current_price := to_decimal (the (map_of prices (binance_symbol a)))\<rparr>
                       else x) x as =
         (if x0 \<in> set as \<and> map_of prices (binance_symbol x0) \<noteq> None
          then x\<lparr>current_price := to_decimal (the (map_of prices (binance_symbol x0)))\<rparr> else x)"
  using assms
proof (induction as arbitrary: x)
  case Nil
  then show ?case by simp
next
  case (Cons a as)
  let ?f = "\<lambda>x a. if map_of prices (binance_symbol a) \<noteq> None \<and> a_id x = a_id a
                  then x\<lparr>current_price := to_decimal (the (map_of prices (binance_symbol a)))\<rparr>
                  else x"
  let ?x = "x\<lparr>current_price := to_decimal (the (map_of prices (binance_symbol x0)))\<rparr>"
  have rest: "\<forall>a\<in>set as. a_id a = a_id x0 \<longrightarrow> a = x0" using Cons.prems(1) by simp
  have unfold: "foldl ?f x (a # as) = foldl ?f (?f x a) as" by (simp only: foldl_Cons)
  show ?case
  proof (cases "map_of prices (binance_symbol a) \<noteq> None \<and> a_id x = a_id a")
    case True
    have "a_id a = a_id x0" using True Cons.prems(2) by simp
    then have a: "a = x0" using Cons.prems(1) by simp
    have fx: "?f x a = ?x" using True a by simp
    have idx: "a_id ?x = a_id x0" using Cons.prems(2) by simp
    have "foldl ?f ?x as = ?x"
      using Cons.IH[OF rest idx] by (simp split: if_splits)
    moreover have "x0 \<in> set (a # as) \<and> map_of prices (binance_symbol x0) \<noteq> None"
      using True a by simp
    moreover from this have "(if x0 \<in> set (a # as) \<and> map_of prices (binance_symbol x0) \<noteq> None
                then ?x else x) = ?x"
      by simp
    ultimately show ?thesis
      unfolding unfold fx by (simp only:)
  next
    case False
    have fx: "?f x a = x" using False by (simp only: if_False)
    have "\<not> (a = x0 \<and> map_of prices (binance_symbol x0) \<noteq> None)"
      using False Cons.prems(2) by blast
    then have mem: "(x0 \<in> set (a # as) \<and> map_of prices (binance_symbol x0) \<noteq> None) =
                    (x0 \<in> set as \<and> map_of prices (binance_symbol x0) \<noteq> None)"
      by auto
    show ?thesis
      unfolding unfold fx mem by (rule Cons.IH[OF rest Cons.prems(2)])
  qed
qed

lemma distinct_same_id:
  "distinct (map a_id xs) \<Longrightarrow> a \<in> set xs \<Longrightarrow> x \<in> set xs \<Longrightarrow> a_id a = a_id x \<Longrightarrow> a = x"
  by (meson distinct_map inj_onD)

text \<open>
  C9. In a store with unique tickers and unique asset ids, a cycle whose fetch returned a
  non-empty dictionary of prices made one feed call, with the valid symbols of the map. The
  ticker map is the list of the active assets. Exactly the assets that are active and whose
  feed symbol is in the fetched dictionary (\<open>hit\<close>) have their current price set to the
  fetched price, and every other asset row is unchanged; exactly one price-history row per such
  asset is appended, whether or not the price changed; all these writes are committed by the
  one commit of the cycle; and after the commit the cycle hands to \<open>broadcast\<close> exactly one
  \<open>market_update\<close> message with the whole batch of ticker and price records when the batch
  is non-empty, and nothing otherwise.
\<close>

theorem sync_cycle_updates_and_broadcasts:
  fixes s :: store and to_decimal :: "'f \<Rightarrow> decimal" and now :: datetime
    and binance_prices :: "(string \<times> 'f) list"
    and hit :: "asset \<Rightarrow> bool" and fetched :: "asset \<Rightarrow> 'f"
    and updates :: "'f ws_update list" and s' :: store
  assumes tickers: "distinct (map ticker (assets s))"
    and ids: "distinct (map a_id (assets s))"
    and feed: "fetch_live_prices feed (get_ticker_to_binance_map s) = (binance_prices, calls)"
    and nonempty: "binance_prices \<noteq> []"
  defines "hit \<equiv> \<lambda>a. is_active a \<and> map_of binance_prices (binance_symbol a) \<noteq> None"
    and "fetched \<equiv> \<lambda>a. the (map_of binance_prices (binance_symbol a))"
    and "updates \<equiv> map (\<lambda>a. \<lparr>upd_ticker = ticker a, upd_price = fetched a\<rparr>) (filter hit (assets s))"
    and "s' \<equiv> s\<lparr>assets := map (\<lambda>a. if hit a then a\<lparr>current_price := to_decimal (fetched a)\<rparr> else a)
                                (assets s),
                   price_history :=
                     price_history s @
                     map (\<lambda>a. \<lparr>h_asset_id = a_id a, price = to_decimal (fetched a), h_timestamp = now\<rparr>)
                         (filter hit (assets s))\<rparr>"
  shows "get_ticker_to_binance_map s =
           map (\<lambda>a. (ticker a, binance_symbol a)) (filter is_active (assets s))
         \<and> calls = [FeedCall (filter (\<lambda>x. x \<noteq> [] \<and> isupper x \<and> isalnum x)
                                (map snd (get_ticker_to_binance_map s)))]
         \<and> update_prices to_decimal feed now s =
             \<lparr>cycle_session = \<lparr>committed = s', pending = s', commits = 1\<rparr>,
              events = calls @ [DbCommit] @
                (if updates = [] then []
                 else [WsBroadcast \<lparr>msg_type = ''market_update'', msg_data = updates\<rparr>])\<rparr>"
proof -
  let ?act = "filter is_active (assets s)"
  let ?inp = "\<lambda>a. map_of binance_prices (binance_symbol a) \<noteq> None"
  let ?f = "\<lambda>x a. if map_of binance_prices (binance_symbol a) \<noteq> None \<and> a_id x = a_id a
                  then x\<lparr>current_price := to_decimal (the (map_of binance_prices (binance_symbol a)))\<rparr>
                  else x"
  have tm: "get_ticker_to_binance_map s = map (\<lambda>a. (ticker a, binance_symbol a)) ?act"
    using tickers by (rule ticker_map_distinct)
  have am: "\<forall>a\<in>set ?act. map_of (get_ticker_to_id_map s) (ticker a) = Some (a_id a)"
    using tickers by (simp add: id_map_distinct map_of_distinct_key)
  have loop: "update_loop to_decimal now binance_prices (get_ticker_to_id_map s)
                (get_ticker_to_binance_map s) s [] =
              (s\<lparr>assets := map (\<lambda>x. foldl ?f x ?act) (assets s),
                  price_history :=
                    price_history s @
                    map (\<lambda>a. \<lparr>h_asset_id = a_id a,
                              price = to_decimal (the (map_of binance_prices (binance_symbol a))),
                              h_timestamp = now\<rparr>) (filter ?inp ?act)\<rparr>,
               [] @ map (\<lambda>a. \<lparr>upd_ticker = ticker a,
                                upd_price = the (map_of binance_prices (binance_symbol a))\<rparr>)
                        (filter ?inp ?act))"
    unfolding tm by (rule update_loop_result[OF am])
  have row: "foldl ?f x ?act = (if hit x then x\<lparr>current_price := to_decimal (fetched x)\<rparr> else x)"
    if x: "x \<in> set (assets s)" for x
  proof -
    have own: "\<forall>a\<in>set ?act. a_id a = a_id x \<longrightarrow> a = x"
      using distinct_same_id[OF ids _ x] by simp
    have mem: "(x \<in> set ?act \<and> map_of binance_prices (binance_symbol x) \<noteq> None) = hit x"
      using x by (auto simp: hit_def)
    show ?thesis
      using foldl_update_own_row[OF own refl, of binance_prices to_decimal]
      unfolding mem fetched_def .
  qed
  have rows: "map (\<lambda>x. foldl ?f x ?act) (assets s) =
              map (\<lambda>a. if hit a then a\<lparr>current_price := to_decimal (fetched a)\<rparr> else a) (assets s)"
    using row by (simp cong: map_cong)
  have flt: "filter ?inp ?act = filter hit (assets s)"
    by (simp add: hit_def conj_commute)
  have loop': "update_loop to_decimal now binance_prices (get_ticker_to_id_map s)
                (get_ticker_to_binance_map s) s [] = (s', updates)"
    unfolding loop rows flt by (simp add: s'_def updates_def fetched_def)
  have run: "update_prices to_decimal feed now s =
             \<lparr>cycle_session = \<lparr>committed = s', pending = s', commits = 1\<rparr>,
              events = calls @ [DbCommit] @
                (if updates = [] then []
                 else [WsBroadcast \<lparr>msg_type = ''market_update'', msg_data = updates\<rparr>])\<rparr>"
    using feed nonempty loop'
    by (simp add: update_prices_def open_session_def commit_def broadcast_updates_def Let_def)
  have called: "calls = [FeedCall (filter (\<lambda>x. x \<noteq> [] \<and> isupper x \<and> isalnum x)
                                     (map snd (get_ticker_to_binance_map s)))]"
  proof (cases "get_ticker_to_binance_map s = []")
    case True
    then show ?thesis using feed nonempty by (simp add: fetch_live_prices_def)
  next
    case notempty: False
    let ?symbols = "filter (\<lambda>x. x \<noteq> [] \<and> isupper x \<and> isalnum x)
                      (map snd (get_ticker_to_binance_map s))"
    show ?thesis
    proof (cases "?symbols = []")
      case True
      then show ?thesis
        using feed nonempty notempty by (simp add: fetch_live_prices_def Let_def)
    next
      case False
      then show ?thesis
        using feed nonempty notempty
        by (cases "feed ?symbols") (simp_all add: fetch_live_prices_def Let_def)
    qed
  qed
  show ?thesis using tm called run by simp
qed

text \<open>
  Two active assets and an inactive one, all three priced by the feed; the price of the
  first is the one already stored.
\<close>

theorem sync_cycle_witness:
  "distinct (map ticker (assets store_market))
   \<and> distinct (map a_id (assets store_market))
   \<and> fetch_live_prices feed_three (get_ticker_to_binance_map store_market) =
       ([(''BTCUSDT'', 100), (''ETHUSDT'', 3100), (''SOLUSDT'', 95)],
        [FeedCall [''BTCUSDT'', ''ETHUSDT'']])
   \<and> [(''BTCUSDT'', 100 :: rat), (''ETHUSDT'', 3100), (''SOLUSDT'', 95)] \<noteq> []
   \<and> update_prices id feed_three 9 store_market =
       \<lparr>cycle_session =
          \<lparr>committed = store_market
               \<lparr>assets := [btc, eth\<lparr>current_price := 3100\<rparr>, sol],
                price_history := [\<lparr>h_asset_id = 1, price = 100, h_timestamp = 1\<rparr>,
                                  \<lparr>h_asset_id = 1, price = 100, h_timestamp = 9\<rparr>,
                                  \<lparr>h_asset_id = 2, price = 3100, h_timestamp = 9\<rparr>]\<rparr>,
           pending = store_market
               \<lparr>assets := [btc, eth\<lparr>current_price := 3100\<rparr>, sol],
                price_history := [\<lparr>h_asset_id = 1, price = 100, h_timestamp = 1\<rparr>,
                                  \<lparr>h_asset_id = 1, price = 100, h_timestamp = 9\<rparr>,
                                  \<lparr>h_asset_id = 2, price = 3100, h_timestamp = 9\<rparr>]\<rparr>,
           commits = 1\<rparr>,
        events = [FeedCall [''BTCUSDT'', ''ETHUSDT''], DbCommit,
                  WsBroadcast \<lparr>msg_type = ''market_update'',
                               msg_data = [\<lparr>upd_ticker = ''BTC'', upd_price = 100\<rparr>,
                                           \<lparr>upd_ticker = ''ETH'', upd_price = 3100\<rparr>]\<rparr>]\<rparr>"
proof -
  have h1: "distinct (map ticker (assets store_market))"
    and h2: "distinct (map a_id (assets store_market))"
    by (simp_all add: store_market_def store0_def btc_def eth_def sol_def)
  have tm: "get_ticker_to_binance_map store_market = [(''BTC'', ''BTCUSDT''), (''ETH'', ''ETHUSDT'')]"
    by (simp add: get_ticker_to_binance_map_def get_all_active_def dict_of_def store_market_def
        store0_def btc_def eth_def sol_def)
  have h3: "fetch_live_prices feed_three (get_ticker_to_binance_map store_market) =
       ([(''BTCUSDT'', 100), (''ETHUSDT'', 3100), (''SOLUSDT'', 95)],
        [FeedCall [''BTCUSDT'', ''ETHUSDT'']])"
    unfolding tm
    by (simp add: fetch_live_prices_def feed_three_def isupper_def isalnum_def is_upper_char_def
        is_lower_char_def is_digit_char_def)
  have h4: "[(''BTCUSDT'', 100 :: rat), (''ETHUSDT'', 3100), (''SOLUSDT'', 95)] \<noteq> []" by simp
  note run = sync_cycle_updates_and_broadcasts[OF h1 h2 h3 h4, where to_decimal = id and now = 9,
      THEN conjunct2, THEN conjunct2]
  show ?thesis
    using h1 h2 h3 h4 run
    by (simp add: store_market_def store0_def btc_def eth_def sol_def)
qed

section \<open>Properties of the connection manager\<close>

text \<open>
  The loop of \<open>broadcast\<close> runs over a copy of the list while \<open>disconnect\<close> removes from
  the list itself; a connection that is listed several times is removed once per failed send.
\<close>

lemma count_list_remove1_le:
  "count_list (remove1 c xs) x = (if x = c then count_list xs x - 1 else count_list xs x)"
  by (induction xs) auto

lemma disconnect_remove1: "disconnect xs c = remove1 c xs"
  by (simp add: disconnect_def remove1_idem)

lemma filter_remove1_rejected:
  "\<not> P c \<Longrightarrow> filter P (remove1 c xs) = filter P xs"
  by (induction xs) auto

lemma broadcast_loop_result:
  "\<forall>c. send_fails c \<longrightarrow> count_list (active_after r) c \<le> count_list todo c \<Longrightarrow>
   broadcast_loop send_fails todo r =
     \<lparr>active_after = filter (\<lambda>c. \<not> send_fails c) (active_after r),
      attempted = attempted r @ todo,
      delivered = delivered r @ filter (\<lambda>c. \<not> send_fails c) todo\<rparr>"
proof (induction todo arbitrary: r)
  case Nil
  have "\<forall>c\<in>set (active_after r). \<not> send_fails c"
  proof
    fix c assume "c \<in> set (active_after r)"
    then have "0 < count_list (active_after r) c" by (metis count_list_0_iff gr0I)
    then show "\<not> send_fails c" using Nil by auto
  qed
  then have "filter (\<lambda>c. \<not> send_fails c) (active_after r) = active_after r"
    by (simp add: filter_id_conv)
  then show ?case by simp
next
  case (Cons c todo)
  show ?case
  proof (cases "send_fails c")
    case True
    let ?r = "r\<lparr>active_after := disconnect (active_after r) c, attempted := attempted r @ [c]\<rparr>"
    have "\<forall>x. send_fails x \<longrightarrow> count_list (active_after ?r) x \<le> count_list todo x"
    proof (intro allI impI)
      fix x assume "send_fails x"
      then have "count_list (active_after r) x \<le> count_list (c # todo) x"
        using Cons.prems by blast
      then show "count_list (active_after ?r) x \<le> count_list todo x"
        by (auto simp: disconnect_remove1 count_list_remove1_le)
    qed
    then show ?thesis
      using Cons.IH[of ?r] True
      by (simp add: disconnect_remove1 filter_remove1_rejected)
  next
    case False
    let ?r = "r\<lparr>attempted := attempted r @ [c], delivered := delivered r @ [c]\<rparr>"
    have "\<forall>x. send_fails x \<longrightarrow> count_list (active_after ?r) x \<le> count_list todo x"
    proof (intro allI impI)
      fix x assume x: "send_fails x"
      then have "count_list (active_after r) x \<le> count_list (c # todo) x"
        using Cons.prems by blast
      moreover have "c \<noteq> x" using x False by auto
      ultimately show "count_list (active_after ?r) x \<le> count_list todo x"
        by simp
    qed
    then show ?thesis
      using Cons.IH[of ?r] False by simp
  qed
qed

text \<open>
  C10. For every list of subscribers and every pattern of send failures, \<open>broadcast\<close>
  attempts a send to every subscriber that was in the list when it started, in order, and
  returns (every exception of a send is caught): the subscribers whose send did not fail all
  received the message, and the list afterwards holds exactly them, the failing ones removed.
\<close>

theorem broadcast_isolates_failures:
  "broadcast send_fails active_connections =
     \<lparr>active_after = filter (\<lambda>c. \<not> send_fails c) active_connections,
      attempted = active_connections,
      delivered = filter (\<lambda>c. \<not> send_fails c) active_connections\<rparr>"
  by (simp add: broadcast_def broadcast_loop_result)

text \<open>
  One failure among three subscribers.
\<close>

lemma broadcast_one_of_three_fails:
  "broadcast (\<lambda>c. c = (2::nat)) [1, 2, 3] =
     \<lparr>active_after = [1, 3], attempted = [1, 2, 3], delivered = [1, 3]\<rparr>"
  by (simp add: broadcast_def disconnect_def)

end
